theory Spec2Isabelle
  imports Complex_Main
begin

section \<open>Numbers\<close>

text \<open>
  The program computes with JavaScript numbers. Candle data (prices, volumes, times) and
  configuration values are finite numbers and are modelled as \<open>real\<close>. The arithmetic of
  the council is rounded to binary64 after every operation, as defined at the end of this
  section; elsewhere rounding error and overflow of the binary representation are not
  modelled. A quotient is the one place where the program can leave the finite numbers
  without overflow, so every value that the source obtains through a division by a value
  that may be zero is a \<open>jsnum\<close>: a finite number, one of the two infinities, or NaN. The
  operations below follow the rules of the language for these values (a comparison with
  NaN is false, \<open>Math.min\<close> and \<open>Math.max\<close> return NaN when an argument is NaN,
  \<open>Math.round\<close> rounds halves up). The sign of a zero is not modelled: a zero denominator
  counts as \<open>+0\<close>, which is what \<open>Math.abs\<close> and a sum started at \<open>0\<close> give.
\<close>

datatype jsnum = Fin real | PInf | NInf | NaN

fun jneg :: "jsnum \<Rightarrow> jsnum" where
  "jneg (Fin a) = Fin (- a)"
| "jneg PInf = NInf"
| "jneg NInf = PInf"
| "jneg NaN = NaN"

fun jadd :: "jsnum \<Rightarrow> jsnum \<Rightarrow> jsnum" where
  "jadd NaN _ = NaN"
| "jadd _ NaN = NaN"
| "jadd (Fin a) (Fin b) = Fin (a + b)"
| "jadd (Fin a) PInf = PInf"
| "jadd (Fin a) NInf = NInf"
| "jadd PInf NInf = NaN"
| "jadd PInf _ = PInf"
| "jadd NInf PInf = NaN"
| "jadd NInf _ = NInf"

definition jsub :: "jsnum \<Rightarrow> jsnum \<Rightarrow> jsnum" where
  "jsub a b = jadd a (jneg b)"

fun jsign_scale :: "jsnum \<Rightarrow> real \<Rightarrow> jsnum" where
  "jsign_scale x b = (if b = 0 then NaN else if 0 < b then x else jneg x)"

fun jmul :: "jsnum \<Rightarrow> jsnum \<Rightarrow> jsnum" where
  "jmul NaN _ = NaN"
| "jmul _ NaN = NaN"
| "jmul (Fin a) (Fin b) = Fin (a * b)"
| "jmul (Fin a) PInf = jsign_scale PInf a"
| "jmul (Fin a) NInf = jsign_scale NInf a"
| "jmul PInf (Fin b) = jsign_scale PInf b"
| "jmul NInf (Fin b) = jsign_scale NInf b"
| "jmul PInf PInf = PInf"
| "jmul PInf NInf = NInf"
| "jmul NInf PInf = NInf"
| "jmul NInf NInf = PInf"

fun jdiv :: "jsnum \<Rightarrow> jsnum \<Rightarrow> jsnum" where
  "jdiv NaN _ = NaN"
| "jdiv _ NaN = NaN"
| "jdiv (Fin a) (Fin b) =
     (if b = 0 then (if a = 0 then NaN else if 0 < a then PInf else NInf) else Fin (a / b))"
| "jdiv (Fin a) _ = Fin 0"
| "jdiv PInf (Fin b) = (if 0 \<le> b then PInf else NInf)"
| "jdiv NInf (Fin b) = (if 0 \<le> b then NInf else PInf)"
| "jdiv _ _ = NaN"

fun jabs :: "jsnum \<Rightarrow> jsnum" where
  "jabs (Fin a) = Fin \<bar>a\<bar>"
| "jabs PInf = PInf"
| "jabs NInf = PInf"
| "jabs NaN = NaN"

fun jlt :: "jsnum \<Rightarrow> jsnum \<Rightarrow> bool" where
  "jlt NaN _ = False"
| "jlt _ NaN = False"
| "jlt (Fin a) (Fin b) = (a < b)"
| "jlt (Fin a) PInf = True"
| "jlt (Fin a) NInf = False"
| "jlt PInf _ = False"
| "jlt NInf NInf = False"
| "jlt NInf _ = True"

fun jle :: "jsnum \<Rightarrow> jsnum \<Rightarrow> bool" where
  "jle NaN _ = False"
| "jle _ NaN = False"
| "jle a b = (a = b \<or> jlt a b)"

definition jgt :: "jsnum \<Rightarrow> jsnum \<Rightarrow> bool" where
  "jgt a b = jlt b a"

definition jge :: "jsnum \<Rightarrow> jsnum \<Rightarrow> bool" where
  "jge a b = jle b a"

fun jmin :: "jsnum \<Rightarrow> jsnum \<Rightarrow> jsnum" where
  "jmin NaN _ = NaN"
| "jmin _ NaN = NaN"
| "jmin a b = (if jlt b a then b else a)"

fun jmax :: "jsnum \<Rightarrow> jsnum \<Rightarrow> jsnum" where
  "jmax NaN _ = NaN"
| "jmax _ NaN = NaN"
| "jmax a b = (if jlt a b then b else a)"

fun jround :: "jsnum \<Rightarrow> jsnum" where
  "jround (Fin a) = Fin (of_int \<lfloor>a + 1 / 2\<rfloor>)"
| "jround x = x"

subsection \<open>Binary64 rounding\<close>

text \<open>
  The council compares a sum of weighted scores with the grade steps and a sum of weights
  with the direction thresholds, and such a sum can land one unit in the last place beside
  the value it has in exact arithmetic. The arithmetic of \<open>runCouncil\<close> is therefore
  modelled as the language performs it: every sum, product and quotient is the exact result
  rounded to the nearest binary64 number, ties to the even significand, and a decimal
  literal denotes the binary64 number nearest to it.

  \<open>binade x\<close> is the power of two \<open>2^e\<close> with \<open>2^e \<le> x < 2^(e+1)\<close>, kept between \<open>2^-1022\<close>
  (below it the numbers are subnormal and share one spacing) and \<open>2^1024\<close> (from there on
  the result overflows to an infinity). The binary64 numbers of that binade are the
  multiples of \<open>quantum x = 2^(e-52)\<close>, and \<open>dbl x\<close> is the multiple nearest to \<open>x\<close>.
\<close>

definition roundHalfEven :: "real \<Rightarrow> int" where
  "roundHalfEven y =
     (let f = \<lfloor>y\<rfloor>; d = y - of_int f in
      if d < 1 / 2 then f else if 1 / 2 < d then f + 1 else if even f then f else f + 1)"

primrec binadeUp :: "nat \<Rightarrow> real \<Rightarrow> real \<Rightarrow> real" where
  "binadeUp 0 p x = p"
| "binadeUp (Suc n) p x = (if 2 * p \<le> x then binadeUp n (2 * p) x else p)"

primrec binadeDown :: "nat \<Rightarrow> real \<Rightarrow> real \<Rightarrow> real" where
  "binadeDown 0 p x = p"
| "binadeDown (Suc n) p x = (if x < p then binadeDown n (p / 2) x else p)"

definition binade :: "real \<Rightarrow> real" where
  "binade x = (if 1 \<le> x then binadeUp 1024 1 x else binadeDown 1022 1 x)"

definition quantum :: "real \<Rightarrow> real" where
  "quantum x = binade x / 2 ^ 52"

definition roundPos :: "real \<Rightarrow> real" where
  "roundPos x = of_int (roundHalfEven (x / quantum x)) * quantum x"

definition dbl :: "real \<Rightarrow> real" where
  "dbl x = (if x = 0 then 0 else if x < 0 then - roundPos (- x) else roundPos x)"

text \<open>The binary64 number that a decimal literal of the source denotes.\<close>

definition lit :: "real \<Rightarrow> real" where
  "lit x = dbl x"

text \<open>
  The result of an operation whose exact value is \<open>x\<close>: rounded, or an infinity when the
  rounded value reaches \<open>2^1024\<close> (\<open>atLeastPow n p y\<close> tests \<open>p * 2^n \<le> y\<close> by doubling).
\<close>

primrec atLeastPow :: "nat \<Rightarrow> real \<Rightarrow> real \<Rightarrow> bool" where
  "atLeastPow 0 p y = (p \<le> y)"
| "atLeastPow (Suc n) p y = (if p \<le> y then atLeastPow n (2 * p) y else False)"

definition toDouble :: "real \<Rightarrow> jsnum" where
  "toDouble x =
     (let y = dbl x in
      if atLeastPow 1024 1 y then PInf else if atLeastPow 1024 1 (- y) then NInf else Fin y)"

fun jrd :: "jsnum \<Rightarrow> jsnum" where
  "jrd (Fin a) = toDouble a"
| "jrd x = x"

text \<open>\<open>a + b\<close>, \<open>a * b\<close> and \<open>a / b\<close> on binary64 numbers.\<close>

definition dadd :: "jsnum \<Rightarrow> jsnum \<Rightarrow> jsnum" where
  "dadd a b = jrd (jadd a b)"

definition dmul :: "jsnum \<Rightarrow> jsnum \<Rightarrow> jsnum" where
  "dmul a b = jrd (jmul a b)"

definition ddiv :: "jsnum \<Rightarrow> jsnum \<Rightarrow> jsnum" where
  "ddiv a b = jrd (jdiv a b)"

text \<open>
  For the proofs about the rounding: the powers of two, and the least and the greatest
  value of \<open>binade\<close>.
\<close>

definition isPow2 :: "real \<Rightarrow> bool" where
  "isPow2 p = (\<exists>k::int. p = 2 powr (real_of_int k))"

definition minBinade :: real where
  "minBinade = 1 / 2 ^ 1022"

definition maxBinade :: real where
  "maxBinade = 2 ^ 1024"

section \<open>Shared helpers for arrays\<close>

text \<open>
  \<open>Array.prototype.findIndex\<close>: the first position whose element satisfies the test; the
  source's \<open>-1\<close> is \<open>None\<close>.
\<close>

fun findIndex :: "('a \<Rightarrow> bool) \<Rightarrow> 'a list \<Rightarrow> nat option" where
  "findIndex P [] = None"
| "findIndex P (x # xs) = (if P x then Some 0 else map_option Suc (findIndex P xs))"

text \<open>
  \<open>Array.prototype.sort\<close> with a comparator: a stable sort, where \<open>x\<close> moves behind \<open>y\<close>
  exactly when the comparator is positive on \<open>(x, y)\<close>; a comparator value NaN counts as
  zero, as the language prescribes.
\<close>

fun jsInsert :: "('a \<Rightarrow> 'a \<Rightarrow> jsnum) \<Rightarrow> 'a \<Rightarrow> 'a list \<Rightarrow> 'a list" where
  "jsInsert cmp x [] = [x]"
| "jsInsert cmp x (y # ys) =
     (if jgt (cmp x y) (Fin 0) then y # jsInsert cmp x ys else x # y # ys)"

definition jsSort :: "('a \<Rightarrow> 'a \<Rightarrow> jsnum) \<Rightarrow> 'a list \<Rightarrow> 'a list" where
  "jsSort cmp xs = foldr (jsInsert cmp) xs []"

text \<open>\<open>xs.slice(-n)\<close>: the last \<open>n\<close> elements, all of them when there are fewer.\<close>

definition sliceLast :: "nat \<Rightarrow> 'a list \<Rightarrow> 'a list" where
  "sliceLast n xs = drop (length xs - n) xs"

text \<open>\<open>xs[0]\<close> where the source tests the result for \<open>undefined\<close>.\<close>

fun first :: "'a list \<Rightarrow> 'a option" where
  "first [] = None"
| "first (x # _) = Some x"

section \<open>Data model (types)\<close>

text \<open>
  The records keep the fields that decide a result. Text fields built for display
  (\<open>id\<close>, \<open>label\<close>, \<open>details\<close>, \<open>reasoning\<close>, \<open>notes\<close>, \<open>color\<close>, \<open>pair\<close>), the constant
  tags of a simulated trade (\<open>setupType\<close>, \<open>mode\<close>) and the wall-clock \<open>timestamp\<close> of a
  council are left out. Field names carry a prefix, since several interfaces of the source
  share the names \<open>time\<close>, \<open>price\<close>, \<open>type\<close> and \<open>strength\<close>.
\<close>

record Candle =
  c_time :: real
  c_open :: real
  c_high :: real
  c_low :: real
  c_close :: real
  c_volume :: real

datatype Timeframe = TF_1m | TF_3m | TF_5m | TF_15m | TF_30m | TF_1h | TF_4h | TF_1d | TF_1w

datatype SwingType = HIGH | LOW

datatype StructureType = BOS_BULL | BOS_BEAR | CHoCH_BULL | CHoCH_BEAR | MSS_BULL | MSS_BEAR

datatype SweepStatus = ACTIVE | SWEPT

datatype ZoneType = BULLISH | BEARISH

record SwingPoint =
  sw_index :: nat
  sw_time :: real
  sw_price :: real
  sw_type :: SwingType

record StructurePoint =
  sp_time :: real
  sp_price :: real
  sp_type :: StructureType
  sp_confirmed :: bool
  sp_candle :: Candle

record LiquidityLevel =
  ll_price :: real
  ll_time :: real
  ll_type :: SwingType
  ll_status :: SweepStatus
  ll_sweepTime :: "real option"
  ll_sweepCandle :: "Candle option"
  ll_strength :: real
  ll_timeframe :: Timeframe

record OrderBlock =
  ob_type :: ZoneType
  ob_top :: real
  ob_bottom :: real
  ob_time :: real
  ob_mitigated :: bool
  ob_mitigationTime :: "real option"
  ob_volume :: real
  ob_strength :: jsnum
  ob_timeframe :: Timeframe

record FairValueGap =
  fvg_type :: ZoneType
  fvg_top :: real
  fvg_bottom :: real
  fvg_time :: real
  fvg_midpoint :: real
  fvg_filled :: bool
  fvg_fillPercent :: jsnum
  fvg_timeframe :: Timeframe

record PDArray =
  pd_premium :: real
  pd_equilibrium :: real
  pd_discount :: real
  pd_high :: real
  pd_low :: real
  pd_type :: ZoneType
  pd_strength :: jsnum

datatype KillzoneName = AKZ | LKZ | NYKZ | IDLE

record Killzone =
  kz_name :: KillzoneName
  kz_startH :: nat
  kz_startM :: nat
  kz_endH :: nat
  kz_endM :: nat
  kz_active :: bool
  kz_minutesRemaining :: "int option"

datatype AgentName = STRUCTURE | LIQUIDITY | ARRAY | RISK | EXECUTION

datatype SetupGrade = Grade_Aplus | Grade_A | Grade_B | Grade_C | Grade_NONE

datatype TradeDirection = LONG | SHORT

record AgentSignal =
  ag_agent :: AgentName
  ag_score :: real
  ag_bullish :: bool
  ag_weight :: real

record AgentCouncil =
  co_agents :: "AgentSignal list"
  co_consensusScore :: jsnum
  co_grade :: SetupGrade
  co_direction :: "TradeDirection option"

datatype TradeStatus = PENDING | STATUS_ACTIVE | TP1_HIT | TP2_HIT | SL_HIT | CANCELLED

record Trade =
  t_timestamp :: real
  t_timeframe :: Timeframe
  t_direction :: TradeDirection
  t_grade :: SetupGrade
  t_entry :: real
  t_stopLoss :: real
  t_tp1 :: real
  t_tp2 :: real
  t_rr :: jsnum
  t_riskPercent :: real
  t_killzone :: KillzoneName
  t_council :: AgentCouncil
  t_status :: TradeStatus
  t_executedAt :: real
  t_executedPrice :: real
  t_positionSize :: jsnum
  t_pnl :: "jsnum option"
  t_pnlPercent :: "jsnum option"
  t_closedAt :: "real option"
  t_closePrice :: "real option"

record BacktestConfig =
  cfg_timeframe :: Timeframe
  cfg_startDate :: real
  cfg_endDate :: real
  cfg_initialBalance :: real
  cfg_riskPerTrade :: real

record KillzoneStats =
  ks_trades :: nat
  ks_wins :: nat
  ks_pnl :: jsnum

record BacktestMetrics =
  bm_totalTrades :: nat
  bm_wins :: nat
  bm_losses :: nat
  bm_winRate :: real
  bm_profitFactor :: jsnum
  bm_sharpeRatio :: jsnum
  bm_maxDrawdown :: jsnum
  bm_maxDrawdownPct :: jsnum
  bm_totalPnl :: jsnum
  bm_totalPnlPct :: jsnum
  bm_avgRR :: jsnum
  bm_bestTrade :: jsnum
  bm_worstTrade :: jsnum
  bm_byKillzone :: "KillzoneName \<Rightarrow> KillzoneStats"

record BacktestResult =
  br_config :: BacktestConfig
  br_trades :: "Trade list"
  br_metrics :: BacktestMetrics

section \<open>Pattern detectors (utils/ict.ts)\<close>

subsection \<open>detectSwings\<close>

text \<open>
  The lookbacks are natural numbers. The outer loop runs over
  \<open>leftLen \<le> i < length - rightLen\<close>, so every index read lies inside the array.
\<close>

definition isPivotHigh :: "Candle list \<Rightarrow> nat \<Rightarrow> nat \<Rightarrow> nat \<Rightarrow> bool" where
  "isPivotHigh candles leftLen rightLen i =
     list_all (\<lambda>j. \<not> (j \<noteq> i \<and> c_high (candles ! j) \<ge> c_high (candles ! i)))
       [i - leftLen ..< Suc (i + rightLen)]"

definition isPivotLow :: "Candle list \<Rightarrow> nat \<Rightarrow> nat \<Rightarrow> nat \<Rightarrow> bool" where
  "isPivotLow candles leftLen rightLen i =
     list_all (\<lambda>j. \<not> (j \<noteq> i \<and> c_low (candles ! j) \<le> c_low (candles ! i)))
       [i - leftLen ..< Suc (i + rightLen)]"

definition swingsAt :: "Candle list \<Rightarrow> nat \<Rightarrow> nat \<Rightarrow> nat \<Rightarrow> SwingPoint list" where
  "swingsAt candles leftLen rightLen i =
     (let c = candles ! i in
      (if isPivotHigh candles leftLen rightLen i
       then [\<lparr> sw_index = i, sw_time = c_time c, sw_price = c_high c, sw_type = HIGH \<rparr>]
       else [])
      @ (if isPivotLow candles leftLen rightLen i
         then [\<lparr> sw_index = i, sw_time = c_time c, sw_price = c_low c, sw_type = LOW \<rparr>]
         else []))"

definition detectSwings :: "Candle list \<Rightarrow> nat \<Rightarrow> nat \<Rightarrow> SwingPoint list" where
  "detectSwings candles leftLen rightLen =
     jsSort (\<lambda>a b. Fin (real (sw_index a) - real (sw_index b)))
       (concat (map (swingsAt candles leftLen rightLen)
                  [leftLen ..< length candles - rightLen]))"

subsection \<open>detectMarketStructure\<close>

datatype Trend = UP | DOWN

record ms_state =
  ms_trend :: Trend
  ms_lastHigh :: "SwingPoint option"
  ms_lastLow :: "SwingPoint option"
  ms_points :: "StructurePoint list"

text \<open>
  \<open>swings.filter(s => s.type === ty && s.index <= i).sort((a, b) => b.index - a.index)[0]\<close>
\<close>

definition latestSwing :: "SwingType \<Rightarrow> SwingPoint list \<Rightarrow> nat \<Rightarrow> SwingPoint option" where
  "latestSwing ty swings i =
     first (jsSort (\<lambda>a b. Fin (real (sw_index b) - real (sw_index a)))
              (filter (\<lambda>s. sw_type s = ty \<and> sw_index s \<le> i) swings))"

definition msBreakHigh :: "SwingPoint list \<Rightarrow> nat \<Rightarrow> Candle \<Rightarrow> ms_state \<Rightarrow> ms_state" where
  "msBreakHigh swings i candle st =
     (case ms_lastHigh st of
        None \<Rightarrow> st
      | Some lastHigh \<Rightarrow>
          if c_high candle > sw_price lastHigh then
            (let isBOS = (ms_trend st = UP) in
             \<lparr> ms_trend = (if \<not> isBOS then UP else ms_trend st),
               ms_lastHigh = latestSwing HIGH swings i,
               ms_lastLow = ms_lastLow st,
               ms_points = ms_points st @
                 [\<lparr> sp_time = c_time candle, sp_price = sw_price lastHigh,
                    sp_type = (if isBOS then BOS_BULL else CHoCH_BULL),
                    sp_confirmed = (c_close candle > sw_price lastHigh),
                    sp_candle = candle \<rparr>] \<rparr>)
          else st)"

definition msBreakLow :: "SwingPoint list \<Rightarrow> nat \<Rightarrow> Candle \<Rightarrow> ms_state \<Rightarrow> ms_state" where
  "msBreakLow swings i candle st =
     (case ms_lastLow st of
        None \<Rightarrow> st
      | Some lastLow \<Rightarrow>
          if c_low candle < sw_price lastLow then
            (let isBOS = (ms_trend st = DOWN) in
             \<lparr> ms_trend = (if \<not> isBOS then DOWN else ms_trend st),
               ms_lastHigh = ms_lastHigh st,
               ms_lastLow = latestSwing LOW swings i,
               ms_points = ms_points st @
                 [\<lparr> sp_time = c_time candle, sp_price = sw_price lastLow,
                    sp_type = (if isBOS then BOS_BEAR else CHoCH_BEAR),
                    sp_confirmed = (c_close candle < sw_price lastLow),
                    sp_candle = candle \<rparr>] \<rparr>)
          else st)"

definition detectMarketStructure :: "Candle list \<Rightarrow> SwingPoint list \<Rightarrow> StructurePoint list" where
  "detectMarketStructure candles swings =
     (if length swings < 4 then []
      else case swings of
        [] \<Rightarrow> []
      | s0 # _ \<Rightarrow>
          ms_points
            (foldl (\<lambda>st (i, candle). msBreakLow swings i candle (msBreakHigh swings i candle st))
               \<lparr> ms_trend = (if sw_type s0 = LOW then UP else DOWN),
                 ms_lastHigh = find (\<lambda>s. sw_type s = HIGH) swings,
                 ms_lastLow = find (\<lambda>s. sw_type s = LOW) swings,
                 ms_points = [] \<rparr>
               (drop 1 (enumerate 0 candles))))"

subsection \<open>detectOrderBlocks\<close>

text \<open>
  The candles the backward scan visits, in the order it visits them:
  \<open>j = spIdx - 1\<close> down to \<open>max(0, spIdx - 20)\<close>.
\<close>

definition obScan :: "Candle list \<Rightarrow> nat \<Rightarrow> Candle list" where
  "obScan candles spIdx = rev (drop (spIdx - 20) (take spIdx candles))"

definition avgVolume :: "Candle list \<Rightarrow> jsnum" where
  "avgVolume candles =
     jdiv (Fin (foldl (\<lambda>s c. s + c_volume c) 0 candles)) (Fin (real (length candles)))"

definition bullishBlock :: "jsnum \<Rightarrow> Timeframe \<Rightarrow> StructurePoint \<Rightarrow> Candle \<Rightarrow> OrderBlock" where
  "bullishBlock avgVol timeframe sp c =
     (let volStrength = jmin (Fin 100) (jmul (jdiv (Fin (c_volume c)) avgVol) (Fin 50));
          moveStrength =
            jmin (Fin 50) (jmul (jdiv (Fin (sp_price sp - c_high c)) (Fin (c_high c))) (Fin 1000))
      in \<lparr> ob_type = BULLISH, ob_top = c_open c, ob_bottom = c_low c, ob_time = c_time c,
           ob_mitigated = False, ob_mitigationTime = None, ob_volume = c_volume c,
           ob_strength = jround (jadd volStrength moveStrength), ob_timeframe = timeframe \<rparr>)"

definition bearishBlock :: "jsnum \<Rightarrow> Timeframe \<Rightarrow> StructurePoint \<Rightarrow> Candle \<Rightarrow> OrderBlock" where
  "bearishBlock avgVol timeframe sp c =
     (let volStrength = jmin (Fin 100) (jmul (jdiv (Fin (c_volume c)) avgVol) (Fin 50));
          moveStrength =
            jmin (Fin 50) (jmul (jdiv (Fin (c_low c - sp_price sp)) (Fin (c_low c))) (Fin 1000))
      in \<lparr> ob_type = BEARISH, ob_top = c_high c, ob_bottom = c_open c, ob_time = c_time c,
           ob_mitigated = False, ob_mitigationTime = None, ob_volume = c_volume c,
           ob_strength = jround (jadd volStrength moveStrength), ob_timeframe = timeframe \<rparr>)"

definition blocksFor :: "Candle list \<Rightarrow> jsnum \<Rightarrow> Timeframe \<Rightarrow> StructurePoint \<Rightarrow> OrderBlock list" where
  "blocksFor candles avgVol timeframe sp =
     (case findIndex (\<lambda>c. c_time c \<ge> sp_time sp) candles of
        None \<Rightarrow> []
      | Some spIdx \<Rightarrow>
          if spIdx < 3 then []
          else
            (if sp_type sp = BOS_BULL \<or> sp_type sp = CHoCH_BULL then
               (case find (\<lambda>c. c_close c < c_open c) (obScan candles spIdx) of
                  None \<Rightarrow> []
                | Some c \<Rightarrow> [bullishBlock avgVol timeframe sp c])
             else [])
            @ (if sp_type sp = BOS_BEAR \<or> sp_type sp = CHoCH_BEAR then
                 (case find (\<lambda>c. c_close c > c_open c) (obScan candles spIdx) of
                    None \<Rightarrow> []
                  | Some c \<Rightarrow> [bearishBlock avgVol timeframe sp c])
               else []))"

text \<open>
  The forward scans start behind the first candle whose time reaches the zone's time
  (at index 0 when \<open>findIndex\<close> gives \<open>-1\<close>).
\<close>

definition scanFrom :: "Candle list \<Rightarrow> real \<Rightarrow> Candle list" where
  "scanFrom candles t =
     (case findIndex (\<lambda>c. c_time c \<ge> t) candles of
        None \<Rightarrow> candles
      | Some k \<Rightarrow> drop (Suc k) candles)"

definition checkMitigation :: "Candle list \<Rightarrow> OrderBlock \<Rightarrow> OrderBlock" where
  "checkMitigation candles ob =
     (case find (\<lambda>c. (ob_type ob = BULLISH \<and> c_low c \<le> ob_bottom ob)
                    \<or> (ob_type ob = BEARISH \<and> c_high c \<ge> ob_top ob))
             (scanFrom candles (ob_time ob)) of
        None \<Rightarrow> ob
      | Some c \<Rightarrow> ob\<lparr> ob_mitigated := True, ob_mitigationTime := Some (c_time c) \<rparr>)"

definition detectOrderBlocks ::
  "Candle list \<Rightarrow> StructurePoint list \<Rightarrow> Timeframe \<Rightarrow> OrderBlock list" where
  "detectOrderBlocks candles structurePoints timeframe =
     filter (\<lambda>b. jgt (ob_strength b) (Fin 20))
       (map (checkMitigation candles)
          (concat (map (blocksFor candles (avgVolume candles) timeframe) structurePoints)))"

subsection \<open>detectFVGs\<close>

definition gapsAt :: "Candle list \<Rightarrow> Timeframe \<Rightarrow> real \<Rightarrow> nat \<Rightarrow> FairValueGap list" where
  "gapsAt candles timeframe minSizePercent i =
     (let prev = candles ! (i - 1); curr = candles ! i; next = candles ! (i + 1) in
      (if c_low next > c_high prev
          \<and> jge (jmul (jdiv (Fin (c_low next - c_high prev)) (Fin (c_high prev))) (Fin 100))
                (Fin minSizePercent)
       then [\<lparr> fvg_type = BULLISH, fvg_top = c_low next, fvg_bottom = c_high prev,
               fvg_time = c_time curr, fvg_midpoint = (c_low next + c_high prev) / 2,
               fvg_filled = False, fvg_fillPercent = Fin 0, fvg_timeframe = timeframe \<rparr>]
       else [])
      @ (if c_high next < c_low prev
            \<and> jge (jmul (jdiv (Fin (c_low prev - c_high next)) (Fin (c_low prev))) (Fin 100))
                  (Fin minSizePercent)
         then [\<lparr> fvg_type = BEARISH, fvg_top = c_low prev, fvg_bottom = c_high next,
                 fvg_time = c_time curr, fvg_midpoint = (c_low prev + c_high next) / 2,
                 fvg_filled = False, fvg_fillPercent = Fin 0, fvg_timeframe = timeframe \<rparr>]
         else []))"

text \<open>
  One iteration of the fill loop on candle \<open>c\<close>: the updated gap, and whether the loop
  breaks.
\<close>

definition fillStep :: "FairValueGap \<Rightarrow> Candle \<Rightarrow> FairValueGap \<times> bool" where
  "fillStep fvg c =
     (if fvg_type fvg = BULLISH then
        (if c_low c \<le> fvg_top fvg then
           (let penetration = min (fvg_top fvg - c_low c) (fvg_top fvg - fvg_bottom fvg);
                fvg1 = fvg\<lparr> fvg_fillPercent :=
                         jmul (jdiv (Fin penetration) (Fin (fvg_top fvg - fvg_bottom fvg)))
                              (Fin 100) \<rparr>
            in if c_low c \<le> fvg_bottom fvg
               then (fvg1\<lparr> fvg_filled := True, fvg_fillPercent := Fin 100 \<rparr>, True)
               else (fvg1, False))
         else (fvg, False))
      else
        (if c_high c \<ge> fvg_bottom fvg then
           (let penetration = min (c_high c - fvg_bottom fvg) (fvg_top fvg - fvg_bottom fvg);
                fvg1 = fvg\<lparr> fvg_fillPercent :=
                         jmul (jdiv (Fin penetration) (Fin (fvg_top fvg - fvg_bottom fvg)))
                              (Fin 100) \<rparr>
            in if c_high c \<ge> fvg_top fvg
               then (fvg1\<lparr> fvg_filled := True, fvg_fillPercent := Fin 100 \<rparr>, True)
               else (fvg1, False))
         else (fvg, False)))"

fun fillScan :: "FairValueGap \<Rightarrow> Candle list \<Rightarrow> FairValueGap" where
  "fillScan fvg [] = fvg"
| "fillScan fvg (c # cs) =
     (case fillStep fvg c of (fvg1, brk) \<Rightarrow> if brk then fvg1 else fillScan fvg1 cs)"

text \<open>
  The states the gap passes through during the scan, one per scanned candle (the scan
  ends at the break).
\<close>

fun fillTrace :: "FairValueGap \<Rightarrow> Candle list \<Rightarrow> FairValueGap list" where
  "fillTrace fvg [] = []"
| "fillTrace fvg (c # cs) =
     (case fillStep fvg c of
        (fvg1, brk) \<Rightarrow> if brk then [fvg1] else fvg1 # fillTrace fvg1 cs)"

definition trackFill :: "Candle list \<Rightarrow> FairValueGap \<Rightarrow> FairValueGap" where
  "trackFill candles fvg = fillScan fvg (scanFrom candles (fvg_time fvg))"

definition detectFVGs :: "Candle list \<Rightarrow> Timeframe \<Rightarrow> real \<Rightarrow> FairValueGap list" where
  "detectFVGs candles timeframe minSizePercent =
     map (trackFill candles)
       (concat (map (gapsAt candles timeframe minSizePercent) [1 ..< length candles - 1]))"

subsection \<open>calcPDArray, detectBreakerBlocks and scoring helpers\<close>

definition calcPDArray :: "SwingPoint list \<Rightarrow> real \<Rightarrow> PDArray option" where
  "calcPDArray swings currentPrice =
     (case (map sw_price (sliceLast 3 (filter (\<lambda>s. sw_type s = HIGH) swings)),
            map sw_price (sliceLast 3 (filter (\<lambda>s. sw_type s = LOW) swings))) of
        (h # hs, l # ls) \<Rightarrow>
          (let high = foldl max h hs; low = foldl min l ls; range = high - low in
           Some \<lparr> pd_premium = low + range * 0.618,
                  pd_equilibrium = low + range * 0.5,
                  pd_discount = low + range * 0.382,
                  pd_high = high, pd_low = low,
                  pd_type = (if currentPrice > low + range * 0.5 then BEARISH else BULLISH),
                  pd_strength =
                    jmin (Fin 100) (jmul (jdiv (Fin range) (Fin currentPrice)) (Fin 10000)) \<rparr>)
      | _ \<Rightarrow> None)"

definition detectBreakerBlocks :: "OrderBlock list \<Rightarrow> Candle list \<Rightarrow> OrderBlock list" where
  "detectBreakerBlocks orderBlocks candles =
     map (\<lambda>ob. ob\<lparr> ob_type := (if ob_type ob = BULLISH then BEARISH else BULLISH),
                   ob_strength := jadd (ob_strength ob) (Fin 20) \<rparr>)
       (filter ob_mitigated orderBlocks)"

definition pdScore :: "PDArray \<Rightarrow> real \<Rightarrow> jsnum" where
  "pdScore pd price =
     (if price \<ge> pd_premium pd then Fin 0
      else if price \<le> pd_discount pd then Fin 100
      else jmul (jdiv (Fin (pd_premium pd - price)) (Fin (pd_premium pd - pd_discount pd)))
                (Fin 100))"

definition countNearbyOBs :: "OrderBlock list \<Rightarrow> real \<Rightarrow> real \<Rightarrow> nat \<times> nat" where
  "countNearbyOBs obs price pctRange =
     (let range = price * pctRange / 100 in
      (length (filter (\<lambda>ob. \<not> ob_mitigated ob \<and> ob_type ob = BULLISH
                            \<and> \<bar>ob_top ob - price\<bar> < range) obs),
       length (filter (\<lambda>ob. \<not> ob_mitigated ob \<and> ob_type ob = BEARISH
                            \<and> \<bar>ob_bottom ob - price\<bar> < range) obs)))"

definition nearestFVG :: "FairValueGap list \<Rightarrow> real \<Rightarrow> real \<Rightarrow> FairValueGap option" where
  "nearestFVG fvgs price pctRange =
     (let range = price * pctRange / 100 in
      first (jsSort (\<lambda>a b. Fin (fvg_time b - fvg_time a))
               (filter (\<lambda>f. \<not> fvg_filled f \<and> \<bar>fvg_midpoint f - price\<bar> < range) fvgs)))"

section \<open>Liquidity engine (utils/liquidity.ts)\<close>

subsection \<open>detectLiquiditySweeps\<close>

definition testCount :: "Candle list \<Rightarrow> SwingPoint \<Rightarrow> nat" where
  "testCount candles swing =
     length (filter
       (\<lambda>c. let approach = (if sw_type swing = HIGH
                             then jdiv (Fin (c_high c)) (Fin (sw_price swing))
                             else jdiv (Fin (sw_price swing)) (Fin (c_low c)))
            in jgt approach (Fin 0.997) \<and> jlt approach (Fin 1.003))
       (drop (Suc (sw_index swing)) candles))"

definition levelFor :: "Candle list \<Rightarrow> Timeframe \<Rightarrow> SwingPoint \<Rightarrow> LiquidityLevel" where
  "levelFor candles timeframe swing =
     (let level = \<lparr> ll_price = sw_price swing, ll_time = sw_time swing, ll_type = sw_type swing,
                    ll_status = ACTIVE, ll_sweepTime = None, ll_sweepCandle = None,
                    ll_strength = min 100 (30 + real (testCount candles swing) * 15),
                    ll_timeframe = timeframe \<rparr>
      in case find (\<lambda>c. (sw_type swing = HIGH \<and> c_high c > sw_price swing)
                        \<or> (sw_type swing = LOW \<and> c_low c < sw_price swing))
                (drop (Suc (sw_index swing)) candles) of
           None \<Rightarrow> level
         | Some c \<Rightarrow> level\<lparr> ll_status := SWEPT, ll_sweepTime := Some (c_time c),
                             ll_sweepCandle := Some c \<rparr>)"

definition detectLiquiditySweeps ::
  "Candle list \<Rightarrow> Timeframe \<Rightarrow> nat \<Rightarrow> nat \<Rightarrow> LiquidityLevel list" where
  "detectLiquiditySweeps candles timeframe leftLen rightLen =
     map (levelFor candles timeframe) (detectSwings candles leftLen rightLen)"

subsection \<open>detectSweepFVGSetups\<close>

record SweepFVGSetup =
  su_sweep :: LiquidityLevel
  su_displacementCandle :: Candle
  su_fvgEntry :: real
  su_fvgTop :: real
  su_fvgBottom :: real
  su_stopLoss :: real
  su_direction :: TradeDirection
  su_quality :: jsnum

definition calcSetupQuality :: "LiquidityLevel \<Rightarrow> jsnum \<Rightarrow> jsnum \<Rightarrow> jsnum" where
  "calcSetupQuality level displacementSize fvgSize =
     (let score0 = Fin (ll_strength level * 0.4);
          score1 = jadd score0 (jmin (Fin 30) (jmul displacementSize (Fin 3000)));
          score2 = jadd score1 (jmin (Fin 20) (jmul fvgSize (Fin 40)));
          score3 = jadd score2 (Fin (if ll_status level = SWEPT then 10 else 0))
      in jmin (Fin 100) (jround score3))"

definition setupsAt :: "Candle list \<Rightarrow> real \<Rightarrow> LiquidityLevel \<Rightarrow> nat \<Rightarrow> SweepFVGSetup list" where
  "setupsAt candles fvgMinSizePct level i =
     (let prev = candles ! (i - 1); curr = candles ! i; next = candles ! (i + 1) in
      if ll_type level = HIGH then
        (let bearishBody = c_open curr - c_close curr;
             isDisplacement =
               (bearishBody > 0 \<and> jgt (jdiv (Fin bearishBody) (Fin (c_open curr))) (Fin 0.003))
         in if isDisplacement \<and> c_high next < c_low prev then
              (let fvgTop = c_low prev; fvgBottom = c_high next;
                   fvgSize = jmul (jdiv (Fin (fvgTop - fvgBottom)) (Fin fvgBottom)) (Fin 100)
               in if jge fvgSize (Fin fvgMinSizePct) then
                    [\<lparr> su_sweep = level, su_displacementCandle = curr,
                       su_fvgEntry = (fvgTop + fvgBottom) / 2,
                       su_fvgTop = fvgTop, su_fvgBottom = fvgBottom,
                       su_stopLoss = ll_price level * 1.002, su_direction = SHORT,
                       su_quality =
                         calcSetupQuality level (jdiv (Fin bearishBody) (Fin (c_open curr)))
                           fvgSize \<rparr>]
                  else [])
            else [])
      else
        (let bullishBody = c_close curr - c_open curr;
             isDisplacement =
               (bullishBody > 0 \<and> jgt (jdiv (Fin bullishBody) (Fin (c_open curr))) (Fin 0.003))
         in if isDisplacement \<and> c_low next > c_high prev then
              (let fvgTop = c_low next; fvgBottom = c_high prev;
                   fvgSize = jmul (jdiv (Fin (fvgTop - fvgBottom)) (Fin fvgBottom)) (Fin 100)
               in if jge fvgSize (Fin fvgMinSizePct) then
                    [\<lparr> su_sweep = level, su_displacementCandle = curr,
                       su_fvgEntry = (fvgTop + fvgBottom) / 2,
                       su_fvgTop = fvgTop, su_fvgBottom = fvgBottom,
                       su_stopLoss = ll_price level * 0.998, su_direction = LONG,
                       su_quality =
                         calcSetupQuality level (jdiv (Fin bullishBody) (Fin (c_open curr)))
                           fvgSize \<rparr>]
                  else [])
            else []))"

definition setupsFor :: "Candle list \<Rightarrow> real \<Rightarrow> LiquidityLevel \<Rightarrow> SweepFVGSetup list" where
  "setupsFor candles fvgMinSizePct level =
     (case findIndex (\<lambda>c. Some (c_time c) = ll_sweepTime level) candles of
        None \<Rightarrow> []
      | Some sweepCandleIdx \<Rightarrow>
          if sweepCandleIdx < 1 \<or> sweepCandleIdx \<ge> length candles - 2 then []
          else concat (map (setupsAt candles fvgMinSizePct level)
                         [sweepCandleIdx + 1 ..< min (sweepCandleIdx + 6) (length candles - 1)]))"

definition detectSweepFVGSetups ::
  "Candle list \<Rightarrow> LiquidityLevel list \<Rightarrow> real \<Rightarrow> SweepFVGSetup list" where
  "detectSweepFVGSetups candles levels fvgMinSizePct =
     jsSort (\<lambda>a b. jsub (su_quality b) (su_quality a))
       (concat (map (setupsFor candles fvgMinSizePct)
                  (filter (\<lambda>l. ll_status l = SWEPT \<and> ll_sweepCandle l \<noteq> None) levels)))"

subsection \<open>scoreLiquidityMagnet\<close>

definition TF_WEIGHT :: "Timeframe \<Rightarrow> real" where
  "TF_WEIGHT tf =
     (case tf of TF_1w \<Rightarrow> 1.0 | TF_1d \<Rightarrow> 0.85 | TF_4h \<Rightarrow> 0.7 | TF_1h \<Rightarrow> 0.6
      | TF_30m \<Rightarrow> 0.5 | TF_15m \<Rightarrow> 0.45 | TF_5m \<Rightarrow> 0.35 | TF_3m \<Rightarrow> 0.3 | TF_1m \<Rightarrow> 0.25)"

definition magnetScoreOf :: "real \<Rightarrow> LiquidityLevel \<Rightarrow> jsnum" where
  "magnetScoreOf currentPrice l =
     (let distPct = jmul (jdiv (Fin \<bar>ll_price l - currentPrice\<bar>) (Fin currentPrice)) (Fin 100);
          distScore = jmax (Fin 0) (jsub (Fin 50) (jmul distPct (Fin 10)));
          tfScore = TF_WEIGHT (ll_timeframe l) * 30;
          strScore = ll_strength l * 0.2
      in jmin (Fin 100) (jadd (jadd distScore (Fin tfScore)) (Fin strScore)))"

definition scoreLiquidityMagnet ::
  "LiquidityLevel list \<Rightarrow> real \<Rightarrow> (LiquidityLevel \<times> jsnum) list" where
  "scoreLiquidityMagnet levels currentPrice =
     jsSort (\<lambda>a b. jsub (snd b) (snd a))
       (map (\<lambda>l. (l, magnetScoreOf currentPrice l))
          (filter (\<lambda>l. ll_status l = ACTIVE) levels))"

section \<open>Agent council (utils/agents.ts)\<close>

text \<open>The weights are the binary64 numbers that the literals of the source denote.\<close>

definition WEIGHTS :: "AgentName \<Rightarrow> real" where
  "WEIGHTS n = (case n of STRUCTURE \<Rightarrow> lit 0.25 | LIQUIDITY \<Rightarrow> lit 0.25 | ARRAY \<Rightarrow> lit 0.20
                | RISK \<Rightarrow> lit 0.15 | EXECUTION \<Rightarrow> lit 0.15)"

text \<open>\<open>type.includes('BULL')\<close>, \<open>type.includes('BEAR')\<close> and \<open>type.includes('CHoCH')\<close>.\<close>

fun includesBULL :: "StructureType \<Rightarrow> bool" where
  "includesBULL BOS_BULL = True"
| "includesBULL CHoCH_BULL = True"
| "includesBULL MSS_BULL = True"
| "includesBULL _ = False"

fun includesBEAR :: "StructureType \<Rightarrow> bool" where
  "includesBEAR BOS_BEAR = True"
| "includesBEAR CHoCH_BEAR = True"
| "includesBEAR MSS_BEAR = True"
| "includesBEAR _ = False"

fun includesCHoCH :: "StructureType \<Rightarrow> bool" where
  "includesCHoCH CHoCH_BULL = True"
| "includesCHoCH CHoCH_BEAR = True"
| "includesCHoCH _ = False"

text \<open>\<open>Math.max(0, Math.min(100, score))\<close> on a finite score.\<close>

definition clampScore :: "real \<Rightarrow> real" where
  "clampScore s = max 0 (min 100 s)"

subsection \<open>Agent 1: structure\<close>

definition runStructureAgent ::
  "Candle list \<Rightarrow> StructurePoint list \<Rightarrow> TradeDirection \<Rightarrow> AgentSignal" where
  "runStructureAgent candles structurePoints direction =
     (let recent = sliceLast 8 structurePoints;
          aligned = filter (\<lambda>sp. if direction = LONG then includesBULL (sp_type sp)
                                 else includesBEAR (sp_type sp)) recent;
          alignedScore = min 40 (real (length aligned) * 12);
          score1 = 0 + alignedScore;
          score2 = (if recent = [] then score1
                    else if (if direction = LONG then includesBULL (sp_type (last recent))
                             else includesBEAR (sp_type (last recent)))
                         then score1 + 20 else score1 - 10);
          hasChoCH = list_ex (\<lambda>sp. includesCHoCH (sp_type sp)) recent;
          score3 = (if hasChoCH then score2 + 15 else score2);
          confirmed = filter (\<lambda>sp. sp_confirmed sp \<and>
                                (if direction = LONG then includesBULL (sp_type sp)
                                 else includesBEAR (sp_type sp))) recent;
          score4 = (if length confirmed > 0 then score3 + 15 else score3);
          last5 = sliceLast 5 candles;
          bullish5 = length (filter (\<lambda>c. c_close c > c_open c) last5);
          score5 = (if direction = LONG \<and> bullish5 \<ge> 3 then score4 + 10 else score4);
          score6 = (if direction = SHORT \<and> bullish5 \<le> 2 then score5 + 10 else score5)
      in \<lparr> ag_agent = STRUCTURE, ag_score = clampScore score6,
           ag_bullish = (direction = LONG), ag_weight = WEIGHTS STRUCTURE \<rparr>)"

subsection \<open>Agent 2: liquidity\<close>

definition runLiquidityAgent ::
  "LiquidityLevel list \<Rightarrow> real \<Rightarrow> TradeDirection \<Rightarrow> AgentSignal" where
  "runLiquidityAgent levels currentPrice direction =
     (let recentSweeps = sliceLast 10 (filter (\<lambda>l. ll_status l = SWEPT) levels);
          alignedSweeps = filter (\<lambda>l. if direction = LONG then ll_type l = LOW
                                       else ll_type l = HIGH) recentSweeps;
          score1 = (if length alignedSweeps > 0
                    then 0 + min 40 (foldl (\<lambda>s l. s + ll_strength l) 0 alignedSweeps
                                      / real (length alignedSweeps) * 0.4)
                    else 0);
          htfSweeps = filter (\<lambda>l. ll_timeframe l \<in> set [TF_4h, TF_1d, TF_1w]) alignedSweeps;
          score2 = (if length htfSweeps > 0 then score1 + 25 else score1);
          magnets = scoreLiquidityMagnet levels currentPrice;
          score3 = (case first magnets of
                      None \<Rightarrow> score2
                    | Some topMagnet \<Rightarrow>
                        if jgt (snd topMagnet) (Fin 60)
                           \<and> (if direction = LONG then ll_type (fst topMagnet) = HIGH
                               else ll_type (fst topMagnet) = LOW)
                        then score2 + 20 else score2);
          score4 = (if length alignedSweeps = 0 then score3 - 20 else score3)
      in \<lparr> ag_agent = LIQUIDITY, ag_score = clampScore score4,
           ag_bullish = (direction = LONG), ag_weight = WEIGHTS LIQUIDITY \<rparr>)"

subsection \<open>Agent 3: arrays\<close>

definition runArrayAgent ::
  "OrderBlock list \<Rightarrow> FairValueGap list \<Rightarrow> PDArray option \<Rightarrow> real \<Rightarrow> TradeDirection
     \<Rightarrow> AgentSignal" where
  "runArrayAgent orderBlocks fvgs pdArray currentPrice direction =
     (let nearbyOBs = countNearbyOBs orderBlocks currentPrice 1.5;
          relevantOBs = (if direction = LONG then fst nearbyOBs else snd nearbyOBs);
          score1 = (if relevantOBs > 0 then 0 + min 30 (real relevantOBs * 15) else 0);
          score2 = (case nearestFVG fvgs currentPrice 2.0 of
                      None \<Rightarrow> score1
                    | Some fvg \<Rightarrow>
                        if \<not> fvg_filled fvg then
                          (let aligned = (if direction = LONG then fvg_type fvg = BULLISH
                                          else fvg_type fvg = BEARISH);
                               s = (if aligned then score1 + 25 else score1)
                           in if jgt (fvg_fillPercent fvg) (Fin 30)
                                 \<and> jlt (fvg_fillPercent fvg) (Fin 60)
                              then s + 10 else s)
                        else score1);
          score3 = (case pdArray of
                      None \<Rightarrow> score2
                    | Some pd \<Rightarrow>
                        (let pds = pdScore pd currentPrice in
                         if direction = LONG \<and> jgt pds (Fin 70) then score2 + 25
                         else if direction = SHORT \<and> jlt pds (Fin 30) then score2 + 25
                         else if (direction = LONG \<and> jgt pds (Fin 50))
                                 \<or> (direction = SHORT \<and> jlt pds (Fin 50)) then score2 + 10
                         else score2));
          bestOB = first (jsSort (\<lambda>a b. jsub (ob_strength b) (ob_strength a))
                     (filter (\<lambda>ob. \<not> ob_mitigated ob
                                  \<and> ob_type ob = (if direction = LONG then BULLISH else BEARISH))
                        orderBlocks));
          score4 = (case bestOB of
                      None \<Rightarrow> score3
                    | Some b \<Rightarrow> if jgt (ob_strength b) (Fin 70) then score3 + 10 else score3)
      in \<lparr> ag_agent = ARRAY, ag_score = clampScore score4,
           ag_bullish = (direction = LONG), ag_weight = WEIGHTS ARRAY \<rparr>)"

subsection \<open>Agent 4: risk\<close>

text \<open>The reward:risk ratio of the risk agent and of the backtest filter.\<close>

definition rewardRisk :: "real \<Rightarrow> real \<Rightarrow> real \<Rightarrow> jsnum" where
  "rewardRisk target entryPrice stopLoss =
     jdiv (Fin \<bar>target - entryPrice\<bar>) (Fin \<bar>entryPrice - stopLoss\<bar>)"

definition runRiskAgent ::
  "Killzone option \<Rightarrow> jsnum \<Rightarrow> nat \<Rightarrow> real \<Rightarrow> real \<Rightarrow> real \<Rightarrow> bool \<Rightarrow> AgentSignal" where
  "runRiskAgent killzone balance tradesThisSession entryPrice stopLoss tp1 newsInWindow =
     (let blocked = (jlt balance (Fin 30) \<or> tradesThisSession \<ge> 2) in
      if blocked then
        \<lparr> ag_agent = RISK, ag_score = 0, ag_bullish = False, ag_weight = WEIGHTS RISK \<rparr>
      else
        (let score1 =
               (case killzone of
                  None \<Rightarrow> 0 - 30
                | Some kz \<Rightarrow>
                    if kz_active kz then
                      (let s = 0 + 40;
                           s = (if kz_name kz = NYKZ then s + 10 else s)
                       in if (case kz_minutesRemaining kz of None \<Rightarrow> 999 | Some m \<Rightarrow> m) < 15
                          then s - 15 else s)
                    else 0 - 30);
             rr = rewardRisk tp1 entryPrice stopLoss;
             score2 = (if jge rr (Fin 3) then score1 + 25
                       else if jge rr (Fin 2) then score1 + 15
                       else score1 - 20);
             score3 = (if newsInWindow then score2 - 20 else score2);
             score4 = (if tradesThisSession = 0 then score3 + 10 else score3);
             score = clampScore score4
         in \<lparr> ag_agent = RISK, ag_score = score, ag_bullish = (score > 50),
              ag_weight = WEIGHTS RISK \<rparr>))"

subsection \<open>Agent 5: execution\<close>

definition runExecutionAgent ::
  "Candle list \<Rightarrow> real \<Rightarrow> real \<Rightarrow> real \<Rightarrow> real \<Rightarrow> TradeDirection \<Rightarrow> real option
     \<Rightarrow> real option \<Rightarrow> AgentSignal" where
  "runExecutionAgent candles entryPrice stopLoss tp1 tp2 direction fvgMidpoint obEdge =
     (let score1 =
            (case fvgMidpoint of
               Some m \<Rightarrow>
                 (let distFromFVG = jmul (jdiv (Fin \<bar>entryPrice - m\<bar>) (Fin entryPrice)) (Fin 100)
                  in if jlt distFromFVG (Fin 0.1) then 0 + 30
                     else if jlt distFromFVG (Fin 0.3) then 0 + 20
                     else 0 + 10)
             | None \<Rightarrow>
                 (case obEdge of
                    Some e \<Rightarrow>
                      (let distFromOB = jmul (jdiv (Fin \<bar>entryPrice - e\<bar>) (Fin entryPrice)) (Fin 100)
                       in if jlt distFromOB (Fin 0.2) then 0 + 25 else 0 + 10)
                  | None \<Rightarrow> 0));
          slPct = jmul (jdiv (Fin \<bar>entryPrice - stopLoss\<bar>) (Fin entryPrice)) (Fin 100);
          score2 = (if jge slPct (Fin 0.5) \<and> jle slPct (Fin 1.5) then score1 + 20
                    else if jlt slPct (Fin 0.3) then score1 - 15
                    else if jgt slPct (Fin 2.5) then score1 - 10
                    else score1);
          rr1 = rewardRisk tp1 entryPrice stopLoss;
          rr2 = rewardRisk tp2 entryPrice stopLoss;
          score3 = (if jge rr1 (Fin 2) then score2 + 20 else score2);
          score4 = (if jge rr2 (Fin 3) then score3 + 15 else score3);
          last3 = sliceLast 3 candles;
          momentum = length (filter (\<lambda>c. if direction = LONG then c_close c > c_open c
                                         else c_close c < c_open c) last3);
          score5 = (if momentum \<ge> 2 then score4 + 15 else score4)
      in \<lparr> ag_agent = EXECUTION, ag_score = clampScore score5,
           ag_bullish = (direction = LONG), ag_weight = WEIGHTS EXECUTION \<rparr>)"

subsection \<open>Council consensus\<close>

text \<open>
  The three \<open>reduce\<close> calls of \<open>runCouncil\<close> run from left to right, starting at \<open>0\<close>, and
  round after every sum and every product. \<open>rawConsensus\<close> is the local \<open>consensusScore\<close>
  of \<open>runCouncil\<close>: the quotient before \<open>Math.round\<close>.
\<close>

definition totalWeight :: "AgentSignal list \<Rightarrow> jsnum" where
  "totalWeight ags = foldl (\<lambda>s a. dadd s (Fin (ag_weight a))) (Fin 0) ags"

definition weightedSum :: "AgentSignal list \<Rightarrow> jsnum" where
  "weightedSum ags =
     foldl (\<lambda>s a. dadd s (dmul (Fin (ag_score a)) (Fin (ag_weight a)))) (Fin 0) ags"

definition rawConsensus :: "AgentSignal list \<Rightarrow> jsnum" where
  "rawConsensus ags = ddiv (weightedSum ags) (totalWeight ags)"

definition gradeOf :: "jsnum \<Rightarrow> SetupGrade" where
  "gradeOf cs =
     (if jge cs (Fin 90) then Grade_Aplus
      else if jge cs (Fin 80) then Grade_A
      else if jge cs (Fin 65) then Grade_B
      else Grade_C)"

definition bullishVotes :: "AgentSignal list \<Rightarrow> jsnum" where
  "bullishVotes ags = foldl (\<lambda>s a. dadd s (Fin (ag_weight a))) (Fin 0) (filter ag_bullish ags)"

definition runCouncil :: "AgentSignal list \<Rightarrow> AgentCouncil" where
  "runCouncil ags =
     \<lparr> co_agents = ags,
       co_consensusScore = jround (rawConsensus ags),
       co_grade = gradeOf (rawConsensus ags),
       co_direction =
         (if jgt (bullishVotes ags) (Fin (lit 0.6)) then Some LONG
          else if jlt (bullishVotes ags) (Fin (lit 0.4)) then Some SHORT
          else None) \<rparr>"

section \<open>Sessions and backtest (hooks/useKillzone.ts)\<close>

subsection \<open>Killzones\<close>

definition KILLZONE_DEFS :: "(KillzoneName \<times> nat \<times> nat \<times> nat \<times> nat) list" where
  "KILLZONE_DEFS = [(AKZ, 6, 30, 10, 0), (LKZ, 13, 0, 17, 0), (NYKZ, 18, 15, 22, 15)]"

text \<open>
  \<open>getActiveKillzone\<close> on the hour and minute of the session clock. The conversion of a
  timestamp into that wall-clock time (\<open>getMMTTime\<close> and the host's \<open>Date\<close>) is a
  parameter of the backtest, \<open>clock\<close>; it gives \<open>None\<close> for a timestamp that is not a
  valid date, where every comparison of the source fails.
\<close>

definition getActiveKillzone :: "(nat \<times> nat) option \<Rightarrow> Killzone option" where
  "getActiveKillzone mmtTime =
     (case mmtTime of
        None \<Rightarrow> None
      | Some (h, m) \<Rightarrow>
          (let totalMins = h * 60 + m; FLATTEN_MINS = 22 * 60 + 5 in
           case find (\<lambda>(n, startH, startM, endH, endM).
                        totalMins \<ge> startH * 60 + startM
                        \<and> totalMins < min (endH * 60 + endM) FLATTEN_MINS) KILLZONE_DEFS of
             None \<Rightarrow> None
           | Some (n, startH, startM, endH, endM) \<Rightarrow>
               Some \<lparr> kz_name = n, kz_startH = startH, kz_startM = startM,
                      kz_endH = endH, kz_endM = endM, kz_active = True,
                      kz_minutesRemaining =
                        Some (int (min (endH * 60 + endM) FLATTEN_MINS) - int totalMins) \<rparr>))"

subsection \<open>runBacktest\<close>

datatype backtest_error = NotEnoughCandles

text \<open>The detector pipeline run on a slice (``ICT analysis on the slice'').\<close>

record Analysis =
  an_structure :: "StructurePoint list"
  an_obs :: "OrderBlock list"
  an_fvgs :: "FairValueGap list"
  an_pdArray :: "PDArray option"
  an_levels :: "LiquidityLevel list"
  an_setups :: "SweepFVGSetup list"

definition analyse :: "Candle list \<Rightarrow> Timeframe \<Rightarrow> Analysis" where
  "analyse slice timeframe =
     (let lastCandle = last slice;
          swings = detectSwings slice 5 5;
          structure = detectMarketStructure slice swings;
          obs = detectOrderBlocks slice structure timeframe;
          fvgs = detectFVGs slice timeframe 0.05;
          pdArray = calcPDArray swings (c_close lastCandle);
          levels = detectLiquiditySweeps slice timeframe 5 5;
          setups = detectSweepFVGSetups slice levels 0.03
      in \<lparr> an_structure = structure, an_obs = obs, an_fvgs = fvgs, an_pdArray = pdArray,
           an_levels = levels, an_setups = setups \<rparr>)"

text \<open>Entry, stop and targets derived from the best setup.\<close>

record Plan =
  pl_direction :: TradeDirection
  pl_entry :: real
  pl_sl :: real
  pl_tp1 :: real
  pl_tp2 :: real
  pl_rr :: jsnum

definition planFor :: "Candle \<Rightarrow> SweepFVGSetup \<Rightarrow> Plan" where
  "planFor lastCandle setup =
     (let direction = su_direction setup;
          entry = su_fvgEntry setup;
          sl = su_stopLoss setup;
          atr = c_close lastCandle * 0.008;
          tp1 = (if direction = LONG then entry + atr * 2.5 else entry - atr * 2.5);
          tp2 = (if direction = LONG then entry + atr * 5.0 else entry - atr * 5.0)
      in \<lparr> pl_direction = direction, pl_entry = entry, pl_sl = sl, pl_tp1 = tp1, pl_tp2 = tp2,
           pl_rr = rewardRisk tp1 entry sl \<rparr>)"

text \<open>The \<open>agents\<close> array of the simulator: its five evaluator calls.\<close>

definition backtestAgents ::
  "Candle list \<Rightarrow> Analysis \<Rightarrow> Killzone \<Rightarrow> jsnum \<Rightarrow> SweepFVGSetup \<Rightarrow> Plan \<Rightarrow> AgentSignal list" where
  "backtestAgents slice an kz balance setup pl =
     [runStructureAgent slice (an_structure an) (pl_direction pl),
      runLiquidityAgent (an_levels an) (c_close (last slice)) (pl_direction pl),
      runArrayAgent (an_obs an) (an_fvgs an) (an_pdArray an) (c_close (last slice))
        (pl_direction pl),
      runRiskAgent (Some kz) balance 0 (pl_entry pl) (pl_sl pl) (pl_tp1 pl) False,
      runExecutionAgent slice (pl_entry pl) (pl_sl pl) (pl_tp1 pl) (pl_tp2 pl) (pl_direction pl)
        (Some (su_fvgEntry setup)) None]"

text \<open>
  Outcome resolution. \<open>outcomeAt\<close> is the body of the forward loop on one future candle
  (\<open>None\<close>: no break on this candle); \<open>futureCandles\<close> are the candles the loop visits,
  \<open>j = i + 1\<close> while \<open>j < Math.min(i + 50, candles.length)\<close>.
\<close>

definition outcomeAt ::
  "TradeDirection \<Rightarrow> real \<Rightarrow> real \<Rightarrow> real \<Rightarrow> Candle \<Rightarrow> (TradeStatus \<times> real) option" where
  "outcomeAt direction sl tp1 tp2 fc =
     (if direction = LONG then
        (if c_high fc \<ge> tp2 then Some (TP2_HIT, tp2)
         else if c_high fc \<ge> tp1 then Some (TP1_HIT, tp1)
         else if c_low fc \<le> sl then Some (SL_HIT, sl)
         else None)
      else
        (if c_low fc \<le> tp2 then Some (TP2_HIT, tp2)
         else if c_low fc \<le> tp1 then Some (TP1_HIT, tp1)
         else if c_high fc \<ge> sl then Some (SL_HIT, sl)
         else None))"

fun scanOutcome ::
  "TradeDirection \<Rightarrow> real \<Rightarrow> real \<Rightarrow> real \<Rightarrow> Candle list \<Rightarrow> TradeStatus \<times> real" where
  "scanOutcome direction sl tp1 tp2 [] = (SL_HIT, sl)"
| "scanOutcome direction sl tp1 tp2 (fc # fcs) =
     (case outcomeAt direction sl tp1 tp2 fc of
        Some r \<Rightarrow> r
      | None \<Rightarrow> scanOutcome direction sl tp1 tp2 fcs)"

definition futureCandles :: "Candle list \<Rightarrow> nat \<Rightarrow> Candle list" where
  "futureCandles candles i =
     take (min (i + 50) (length candles) - (i + 1)) (drop (i + 1) candles)"

definition resolveOutcome :: "Candle list \<Rightarrow> nat \<Rightarrow> Plan \<Rightarrow> TradeStatus \<times> real" where
  "resolveOutcome candles i pl =
     scanOutcome (pl_direction pl) (pl_sl pl) (pl_tp1 pl) (pl_tp2 pl) (futureCandles candles i)"

text \<open>\<open>parseFloat(x.toFixed(2))\<close>: two decimals, halves away from zero.\<close>

fun toFixed2 :: "jsnum \<Rightarrow> jsnum" where
  "toFixed2 (Fin a) =
     (if a < 0 then Fin (- (of_int \<lfloor>- a * 100 + 1 / 2\<rfloor> / 100))
      else Fin (of_int \<lfloor>a * 100 + 1 / 2\<rfloor> / 100))"
| "toFixed2 x = x"

text \<open>
  One pass through the body of the walk-forward loop at index \<open>i\<close> with the running
  balance: \<open>None\<close> where the source continues without a trade, the trade and its profit
  otherwise.
\<close>

definition backtestStep ::
  "(real \<Rightarrow> (nat \<times> nat) option) \<Rightarrow> Candle list \<Rightarrow> BacktestConfig \<Rightarrow> nat \<Rightarrow> jsnum
     \<Rightarrow> (Trade \<times> jsnum) option" where
  "backtestStep clock candles config i balance =
     (let timeframe = cfg_timeframe config;
          slice = take (i + 1) candles;
          lastCandle = last slice
      in case getActiveKillzone (clock (c_time lastCandle)) of
           None \<Rightarrow> None
         | Some kz \<Rightarrow>
             if i mod 15 \<noteq> 0 then None
             else
               (let an = analyse slice timeframe in
                case an_setups an of
                  [] \<Rightarrow> None
                | setup # _ \<Rightarrow>
                    (let pl = planFor lastCandle setup in
                     if jlt (pl_rr pl) (Fin 2) then None
                     else
                       (let council = runCouncil (backtestAgents slice an kz balance setup pl) in
                        if co_grade council \<noteq> Grade_Aplus \<and> co_grade council \<noteq> Grade_A then None
                        else
                          (let riskAmt = jdiv (jmul balance (Fin (cfg_riskPerTrade config))) (Fin 100);
                               posSize = jdiv riskAmt (Fin \<bar>pl_entry pl - pl_sl pl\<bar>);
                               res = resolveOutcome candles i pl;
                               outcome = fst res;
                               exitPrice = snd res;
                               pnl = (if pl_direction pl = LONG
                                      then jmul (Fin (exitPrice - pl_entry pl)) posSize
                                      else jmul (Fin (pl_entry pl - exitPrice)) posSize);
                               pnlPct = jmul (jdiv pnl balance) (Fin 100)
                           in Some
                                (\<lparr> t_timestamp = c_time lastCandle,
                                    t_timeframe = timeframe,
                                    t_direction = pl_direction pl,
                                    t_grade = co_grade council,
                                    t_entry = pl_entry pl, t_stopLoss = pl_sl pl,
                                    t_tp1 = pl_tp1 pl, t_tp2 = pl_tp2 pl,
                                    t_rr = toFixed2 (pl_rr pl),
                                    t_riskPercent = cfg_riskPerTrade config,
                                    t_killzone = kz_name kz,
                                    t_council = council,
                                    t_status = outcome,
                                    t_executedAt = c_time lastCandle,
                                    t_executedPrice = pl_entry pl,
                                    t_positionSize = posSize,
                                    t_pnl = Some pnl, t_pnlPercent = Some pnlPct,
                                    t_closedAt = Some (c_time lastCandle),
                                    t_closePrice = Some exitPrice \<rparr>,
                                 pnl))))))"

text \<open>
  The walk-forward loop from index \<open>i\<close>: \<open>i < candles.length - 5\<close>, one step forward after
  a pass without a trade, twenty more after a trade.
\<close>

function backtestLoop ::
  "(real \<Rightarrow> (nat \<times> nat) option) \<Rightarrow> Candle list \<Rightarrow> BacktestConfig \<Rightarrow> nat \<Rightarrow> jsnum
     \<Rightarrow> Trade list \<Rightarrow> Trade list" where
  "backtestLoop clock candles config i balance trades =
     (if i + 5 < length candles then
        (case backtestStep clock candles config i balance of
           None \<Rightarrow> backtestLoop clock candles config (i + 1) balance trades
         | Some (t, pnl) \<Rightarrow>
             backtestLoop clock candles config (i + 20 + 1) (jadd balance pnl) (trades @ [t]))
      else trades)"
  by pat_completeness auto
termination
  by (relation "measure (\<lambda>(clock, candles, config, i, balance, trades). length candles - i)") auto

subsection \<open>calcMetrics\<close>

text \<open>\<open>t.pnl ?? 0\<close>\<close>

definition pnlOr0 :: "Trade \<Rightarrow> jsnum" where
  "pnlOr0 t = (case t_pnl t of None \<Rightarrow> Fin 0 | Some p \<Rightarrow> p)"

fun jsqrt :: "jsnum \<Rightarrow> jsnum" where
  "jsqrt (Fin a) = (if a < 0 then NaN else Fin (sqrt a))"
| "jsqrt PInf = PInf"
| "jsqrt _ = NaN"

definition grossWin :: "Trade list \<Rightarrow> jsnum" where
  "grossWin trades =
     foldl (\<lambda>s t. jadd s (pnlOr0 t)) (Fin 0) (filter (\<lambda>t. jgt (pnlOr0 t) (Fin 0)) trades)"

definition grossLoss :: "Trade list \<Rightarrow> jsnum" where
  "grossLoss trades =
     jabs (foldl (\<lambda>s t. jadd s (pnlOr0 t)) (Fin 0) (filter (\<lambda>t. jle (pnlOr0 t) (Fin 0)) trades))"

text \<open>The drawdown walk: \<open>(peak, bal, maxDD)\<close> after one more trade.\<close>

definition drawdownStep :: "jsnum \<times> jsnum \<times> jsnum \<Rightarrow> Trade \<Rightarrow> jsnum \<times> jsnum \<times> jsnum" where
  "drawdownStep st t =
     (case st of (peak, bal, maxDD) \<Rightarrow>
        (let bal1 = jadd bal (pnlOr0 t);
             peak1 = (if jgt bal1 peak then bal1 else peak);
             dd = jsub peak1 bal1
         in (peak1, bal1, if jgt dd maxDD then dd else maxDD)))"

definition killzoneStats :: "Trade list \<Rightarrow> KillzoneName \<Rightarrow> KillzoneStats" where
  "killzoneStats trades n =
     foldl (\<lambda>kz t. if t_killzone t = n
                    then \<lparr> ks_trades = ks_trades kz + 1,
                           ks_wins = (if jgt (pnlOr0 t) (Fin 0) then ks_wins kz + 1 else ks_wins kz),
                           ks_pnl = jadd (ks_pnl kz) (pnlOr0 t) \<rparr>
                    else kz)
       \<lparr> ks_trades = 0, ks_wins = 0, ks_pnl = Fin 0 \<rparr> trades"

definition calcMetrics :: "Trade list \<Rightarrow> BacktestConfig \<Rightarrow> BacktestMetrics" where
  "calcMetrics trades config =
     (let wins = filter (\<lambda>t. jgt (pnlOr0 t) (Fin 0)) trades;
          losses = filter (\<lambda>t. jle (pnlOr0 t) (Fin 0)) trades;
          pnlArr = map pnlOr0 trades;
          totalPnl = foldl jadd (Fin 0) pnlArr;
          n1 = Fin (if length trades = 0 then 1 else real (length trades));
          avgPnl = jdiv totalPnl n1;
          stdDev = jsqrt (jdiv (foldl jadd (Fin 0)
                                  (map (\<lambda>p. jmul (jsub p avgPnl) (jsub p avgPnl)) pnlArr)) n1);
          maxDD = snd (snd (foldl drawdownStep
                              (Fin (cfg_initialBalance config), Fin (cfg_initialBalance config), Fin 0)
                              trades))
      in \<lparr> bm_totalTrades = length trades,
           bm_wins = length wins,
           bm_losses = length losses,
           bm_winRate = (if length trades \<noteq> 0
                         then real (length wins) / real (length trades) * 100 else 0),
           bm_profitFactor =
             (if jgt (grossLoss trades) (Fin 0) then jdiv (grossWin trades) (grossLoss trades)
              else if jgt (grossWin trades) (Fin 0) then Fin 999
              else Fin 0),
           bm_sharpeRatio =
             (if jgt stdDev (Fin 0) then jmul (jdiv avgPnl stdDev) (Fin (sqrt 252)) else Fin 0),
           bm_maxDrawdown = maxDD,
           bm_maxDrawdownPct =
             (if cfg_initialBalance config > 0
              then jmul (jdiv maxDD (Fin (cfg_initialBalance config))) (Fin 100) else Fin 0),
           bm_totalPnl = totalPnl,
           bm_totalPnlPct =
             (if cfg_initialBalance config > 0
              then jmul (jdiv totalPnl (Fin (cfg_initialBalance config))) (Fin 100) else Fin 0),
           bm_avgRR =
             (if length trades \<noteq> 0
              then jdiv (foldl (\<lambda>s t. jadd s (t_rr t)) (Fin 0) trades) (Fin (real (length trades)))
              else Fin 0),
           bm_bestTrade = foldl jmax NInf (pnlArr @ [Fin 0]),
           bm_worstTrade = foldl jmin PInf (pnlArr @ [Fin 0]),
           bm_byKillzone = killzoneStats trades \<rparr>)"

definition runBacktest ::
  "(real \<Rightarrow> (nat \<times> nat) option) \<Rightarrow> Candle list \<Rightarrow> BacktestConfig
     \<Rightarrow> backtest_error + BacktestResult" where
  "runBacktest clock candles config =
     (if length candles < 100 then Inl NotEnoughCandles
      else
        (let trades = backtestLoop clock candles config 50 (Fin (cfg_initialBalance config)) []
         in Inr \<lparr> br_config = config, br_trades = trades,
                  br_metrics = calcMetrics trades config \<rparr>))"

section \<open>Reference definitions taken from the specification\<close>

text \<open>
  The weights as the specification lists them (decimal numbers), and with them the weighted
  average, the grade steps and the weight of the bullish votes in exact arithmetic, to be
  compared with what \<open>runCouncil\<close> computes.
\<close>

definition nominalWeight :: "AgentName \<Rightarrow> real" where
  "nominalWeight n = (case n of STRUCTURE \<Rightarrow> 0.25 | LIQUIDITY \<Rightarrow> 0.25 | ARRAY \<Rightarrow> 0.20
                      | RISK \<Rightarrow> 0.15 | EXECUTION \<Rightarrow> 0.15)"

definition weightedAverage :: "AgentSignal list \<Rightarrow> real" where
  "weightedAverage ags =
     sum_list (map (\<lambda>a. ag_score a * nominalWeight (ag_agent a)) ags)
       / sum_list (map (\<lambda>a. nominalWeight (ag_agent a)) ags)"

definition nominalBullish :: "AgentSignal list \<Rightarrow> real" where
  "nominalBullish ags = sum_list (map (\<lambda>a. nominalWeight (ag_agent a)) (filter ag_bullish ags))"

definition specDirection :: "real \<Rightarrow> TradeDirection option" where
  "specDirection v = (if 0.6 < v then Some LONG else if v < 0.4 then Some SHORT else None)"

definition stepGrade :: "real \<Rightarrow> SetupGrade" where
  "stepGrade x =
     (if 90 \<le> x then Grade_Aplus else if 80 \<le> x then Grade_A
      else if 65 \<le> x then Grade_B else Grade_C)"

text \<open>
  The five signals of the council in the order in which every caller lists them
  (structure, liquidity, array, risk, execution), each with the weight of its agent.
\<close>

definition councilOrder :: "AgentName list" where
  "councilOrder = [STRUCTURE, LIQUIDITY, ARRAY, RISK, EXECUTION]"

definition fixedWeights :: "AgentSignal list \<Rightarrow> bool" where
  "fixedWeights ags =
     (map (\<lambda>a. (ag_agent a, ag_weight a)) ags = map (\<lambda>n. (n, WEIGHTS n)) councilOrder)"

text \<open>
  The weighted average as the council evaluates it on such a list: products and sums
  rounded to binary64, from left to right.
\<close>

definition doubleSum :: "real list \<Rightarrow> real" where
  "doubleSum xs = foldl (\<lambda>s x. dbl (s + x)) 0 xs"

definition doubleAverage :: "AgentSignal list \<Rightarrow> real" where
  "doubleAverage ags =
     dbl (doubleSum (map (\<lambda>a. dbl (ag_score a * ag_weight a)) ags)
          / doubleSum (map ag_weight ags))"

text \<open>Five signals in the order of the council, with the fixed weights and given flags.\<close>

definition councilInput :: "(real \<times> bool) list \<Rightarrow> AgentSignal list" where
  "councilInput sbs =
     map (\<lambda>(n, s, b). \<lparr> ag_agent = n, ag_score = s, ag_bullish = b, ag_weight = WEIGHTS n \<rparr>)
       (zip councilOrder sbs)"

text \<open>The same five signals listed in another order: structure, risk, array first.\<close>

definition reorderedInput :: "(real \<times> bool) list \<Rightarrow> AgentSignal list" where
  "reorderedInput sbs =
     map (\<lambda>(n, s, b). \<lparr> ag_agent = n, ag_score = s, ag_bullish = b, ag_weight = WEIGHTS n \<rparr>)
       (zip [STRUCTURE, RISK, ARRAY, LIQUIDITY, EXECUTION] sbs)"

text \<open>
  Gross wins and gross losses of a list of finite profits, as the specification words them:
  the sum of the positive ones, and the size of the sum of the others.
\<close>

definition specGrossWins :: "real list \<Rightarrow> real" where
  "specGrossWins ps = sum_list (filter (\<lambda>p. p > 0) ps)"

definition specGrossLosses :: "real list \<Rightarrow> real" where
  "specGrossLosses ps = \<bar>sum_list (filter (\<lambda>p. p \<le> 0) ps)\<bar>"

text \<open>The trades carry exactly the finite profits \<open>ps\<close>, in this order.\<close>

definition finitePnl :: "Trade list \<Rightarrow> real list \<Rightarrow> bool" where
  "finitePnl trades ps = (map t_pnl trades = map (\<lambda>p. Some (Fin p)) ps)"

text \<open>
  The points of the risk evaluator for the session and for the reward:risk ratio, as the
  specification lists them: +40 inside an active session (+10 more for NYKZ, -15 with less
  than 15 minutes left), -30 outside; +25 / +15 / -20 for a ratio of at least 3 / at least
  2 / below 2.
\<close>

definition sessionPoints :: "Killzone option \<Rightarrow> real" where
  "sessionPoints killzone =
     (case killzone of
        None \<Rightarrow> - 30
      | Some kz \<Rightarrow>
          if kz_active kz then
            40 + (if kz_name kz = NYKZ then 10 else 0)
               - (if (case kz_minutesRemaining kz of None \<Rightarrow> 999 | Some m \<Rightarrow> m) < 15
                  then 15 else 0)
          else - 30)"

definition rrPoints :: "jsnum \<Rightarrow> real" where
  "rrPoints rr = (if jge rr (Fin 3) then 25 else if jge rr (Fin 2) then 15 else - 20)"

text \<open>The window of the specification's wording: 50 future candles.\<close>

definition specFutureCandles :: "Candle list \<Rightarrow> nat \<Rightarrow> Candle list" where
  "specFutureCandles candles i = take 50 (drop (i + 1) candles)"

subsection \<open>Concrete inputs\<close>

text \<open>A candle given by its high and low (it opens at the low and closes at the high).\<close>

definition candleHL :: "real \<Rightarrow> real \<Rightarrow> Candle" where
  "candleHL h l = \<lparr> c_time = 0, c_open = l, c_high = h, c_low = l, c_close = h, c_volume = 1 \<rparr>"

text \<open>The five candles of the swing scenario: highs 10, 12, 15, 11, 9.\<close>

definition swingScenario :: "Candle list" where
  "swingScenario = map (\<lambda>h. candleHL h (h - 1)) [10, 12, 15, 11, 9]"

text \<open>A closed long trade with the given profit.\<close>

definition tradeWithPnl :: "real \<Rightarrow> Trade" where
  "tradeWithPnl p =
     \<lparr> t_timestamp = 0, t_timeframe = TF_15m, t_direction = LONG, t_grade = Grade_A,
       t_entry = 100, t_stopLoss = 99, t_tp1 = 102, t_tp2 = 104, t_rr = Fin 2,
       t_riskPercent = 1, t_killzone = LKZ,
       t_council = runCouncil [], t_status = (if p > 0 then TP1_HIT else SL_HIT),
       t_executedAt = 0, t_executedPrice = 100, t_positionSize = Fin 1,
       t_pnl = Some (Fin p), t_pnlPercent = Some (Fin p), t_closedAt = Some 0,
       t_closePrice = Some (if p > 0 then 102 else 99) \<rparr>"

definition someConfig :: BacktestConfig where
  "someConfig = \<lparr> cfg_timeframe = TF_15m, cfg_startDate = 0, cfg_endDate = 0,
                  cfg_initialBalance = 1000, cfg_riskPerTrade = 1 \<rparr>"

text \<open>Candles from rows (open, high, low, close, volume); the time is the position.\<close>

definition mkCandles :: "(real \<times> real \<times> real \<times> real \<times> real) list \<Rightarrow> Candle list" where
  "mkCandles xs =
     map (\<lambda>(i, (opn, h, l, c, v)).
            \<lparr> c_time = real i, c_open = opn, c_high = h, c_low = l, c_close = c, c_volume = v \<rparr>)
       (enumerate 0 xs)"

text \<open>
  A run of the simulator that takes a trade. Thirty quiet candles, a decline to a swing low
  at 100.0 (index 35) that is tested five times, a swing high at 100.9 (index 43), a sweep
  of the low at index 48, a displacement candle at index 50 that leaves a gap between 100.4
  and 100.8, a rally through the swing high to 101.6 (index 55) and a shallow pullback until
  index 60, where the simulator evaluates. Then 49 quiet candles, and a candle at index 110
  (the fiftieth after the evaluation) whose high is above the second target.
\<close>

definition examplePattern :: "(real \<times> real \<times> real \<times> real \<times> real) list" where
  "examplePattern = replicate 30 (100.5, 100.6, 100.45, 100.55, 1) @
   [(100.5, 100.6, 100.35, 100.4, 1),
    (100.4, 100.5, 100.3, 100.35, 1),
    (100.35, 100.45, 100.25, 100.3, 1),
    (100.3, 100.4, 100.2, 100.25, 1),
    (100.25, 100.35, 100.1, 100.2, 1),
    (100.2, 100.3, 100.0, 100.15, 1),
    (100.15, 100.35, 100.05, 100.3, 1),
    (100.3, 100.4, 100.1, 100.2, 1),
    (100.2, 100.35, 100.05, 100.3, 1),
    (100.3, 100.4, 100.1, 100.3, 1),
    (100.3, 100.5, 100.15, 100.45, 1),
    (100.45, 100.7, 100.4, 100.65, 1),
    (100.65, 100.85, 100.6, 100.8, 1),
    (100.8, 100.9, 100.7, 100.75, 1),
    (100.75, 100.8, 100.5, 100.55, 1),
    (100.55, 100.6, 100.35, 100.4, 1),
    (100.4, 100.45, 100.2, 100.25, 1),
    (100.25, 100.3, 100.1, 100.15, 1),
    (100.15, 100.4, 99.8, 100.35, 1),
    (100.35, 100.4, 100.2, 100.25, 2),
    (100.25, 101.0, 100.25, 100.95, 1),
    (100.95, 101.1, 100.8, 101.05, 1),
    (101.05, 101.2, 100.95, 101.15, 1),
    (101.15, 101.3, 101.05, 101.25, 1),
    (101.25, 101.4, 101.15, 101.35, 1),
    (101.35, 101.6, 101.3, 101.55, 1),
    (101.4, 101.5, 101.35, 101.45, 1),
    (101.35, 101.45, 101.3, 101.4, 1),
    (101.3, 101.45, 101.25, 101.4, 1),
    (101.3, 101.4, 101.25, 101.35, 1),
    (101.3, 101.4, 101.25, 101.35, 1)]"

definition exampleCandles :: "Candle list" where
  "exampleCandles =
     mkCandles (examplePattern @ replicate 49 (101.3, 101.4, 101.25, 101.35, 1)
                @ [(101.35, 105, 101.3, 104.9, 1)])"

definition exampleConfig :: BacktestConfig where
  "exampleConfig = \<lparr> cfg_timeframe = TF_1w, cfg_startDate = 0, cfg_endDate = 0,
                     cfg_initialBalance = 1000, cfg_riskPerTrade = 1 \<rparr>"

text \<open>
  A session clock that shows 19:00 (inside NYKZ) at the candle of index 60 and 03:00
  (outside every session) at the others.
\<close>

definition exampleClock :: "real \<Rightarrow> (nat \<times> nat) option" where
  "exampleClock t = (if t = 60 then Some (19, 0) else Some (3, 0))"

text \<open>
  Five candles and a bullish break of the level 110 at the last one: the bearish candle at
  index 3 has three times the average volume and its high lies more than 5 percent below
  the level; the last candle trades below its low.
\<close>

definition obCandles :: "Candle list" where
  "obCandles = mkCandles
     [(100, 101, 99, 100.5, 1),
      (100.5, 101, 99.5, 100.8, 1),
      (100.8, 101.2, 100, 101, 1),
      (101, 101.1, 99.9, 100, 6),
      (100, 112, 99.5, 111, 1)]"

definition obBreak :: StructurePoint where
  "obBreak = \<lparr> sp_time = 4, sp_price = 110, sp_type = BOS_BULL, sp_confirmed = True,
               sp_candle = obCandles ! 4 \<rparr>"

text \<open>
  Five candles with one bullish gap between 100 and 102.5 (candles 0 to 2); candle 3 dips
  to 101 and candle 4 only to 102.
\<close>

definition gapCandles :: "Candle list" where
  "gapCandles = mkCandles
     [(99, 100, 98, 99.5, 1),
      (99.5, 103, 99.5, 102.8, 1),
      (102.8, 104, 102.5, 103.5, 1),
      (103.5, 103.6, 101, 101.5, 1),
      (102.2, 102.6, 102, 102.4, 1)]"

section \<open>Verified properties\<close>

subsection \<open>Binary64 rounding\<close>

lemma rhe_near: "of_int (roundHalfEven y) \<le> y + 1 / 2 \<and> y - 1 / 2 \<le> of_int (roundHalfEven y)"
  unfolding roundHalfEven_def Let_def by (auto; linarith)

lemma rhe_int: "roundHalfEven (of_int k) = k"
  unfolding roundHalfEven_def Let_def by simp

lemma rhe_mono:
  assumes "a \<le> b" shows "roundHalfEven a \<le> roundHalfEven b"
proof (rule ccontr)
  assume "\<not> roundHalfEven a \<le> roundHalfEven b"
  then have lt: "roundHalfEven b + 1 \<le> roundHalfEven a" by simp
  then have "real_of_int (roundHalfEven b) + 1 \<le> real_of_int (roundHalfEven a)" by linarith
  with rhe_near [of a] rhe_near [of b] assms have "a = b" by linarith
  with lt show False by simp
qed

lemma isPow2_1: "isPow2 1"
  unfolding isPow2_def by (rule exI [of _ 0]) simp

lemma isPow2_double: "isPow2 p \<Longrightarrow> isPow2 (2 * p)"
  unfolding isPow2_def
proof (elim exE)
  fix k :: int assume "p = 2 powr real_of_int k"
  then have "2 * p = 2 powr real_of_int (k + 1)" by (simp add: powr_add)
  then show "\<exists>j::int. 2 * p = 2 powr real_of_int j" by blast
qed

lemma isPow2_half: "isPow2 p \<Longrightarrow> isPow2 (p / 2)"
  unfolding isPow2_def
proof (elim exE)
  fix k :: int assume "p = 2 powr real_of_int k"
  then have "p / 2 = 2 powr real_of_int (k - 1)" by (simp add: powr_diff)
  then show "\<exists>j::int. p / 2 = 2 powr real_of_int j" by blast
qed

lemma isPow2_pos: "isPow2 p \<Longrightarrow> 0 < p"
  unfolding isPow2_def by auto

text \<open>Two distinct powers of two differ by a factor of at least two.\<close>

lemma isPow2_gap:
  assumes "isPow2 p" "isPow2 r" "p < r"
  shows "2 * p \<le> r"
proof -
  from assms obtain k j :: int where p: "p = 2 powr real_of_int k" and r: "r = 2 powr real_of_int j"
    unfolding isPow2_def by blast
  from assms(3) have "k < j" unfolding p r by simp
  then have "real_of_int (k + 1) \<le> real_of_int j" by linarith
  then have "2 powr real_of_int (k + 1) \<le> (2::real) powr real_of_int j" by (simp del: of_int_add)
  moreover have "2 * p = 2 powr real_of_int (k + 1)" unfolding p by (simp add: powr_add)
  ultimately show ?thesis unfolding r by simp
qed

lemma binadeUp_pow2: "isPow2 p \<Longrightarrow> isPow2 (binadeUp n p x)"
  by (induction n arbitrary: p) (simp_all add: isPow2_double)

lemma binadeUp_le: "p \<le> x \<Longrightarrow> binadeUp n p x \<le> x"
  by (induction n arbitrary: p) simp_all

lemma binadeUp_lower: "0 < p \<Longrightarrow> p \<le> binadeUp n p x"
proof (induction n arbitrary: p)
  case 0
  show ?case by simp
next
  case (Suc n)
  from Suc.IH [of "2 * p"] Suc.prems show ?case by auto
qed

lemma binadeUp_upper: "0 < p \<Longrightarrow> binadeUp n p x \<le> p * 2 ^ n"
proof (induction n arbitrary: p)
  case 0
  show ?case by simp
next
  case (Suc n)
  have "(1::real) \<le> 2 ^ Suc n" by (rule one_le_power) simp
  with Suc.prems have "p * 1 \<le> p * 2 ^ Suc n" by (intro mult_left_mono) simp_all
  with Suc.IH [of "2 * p"] Suc.prems show ?case by auto
qed

lemma binadeUp_stop: "x < 2 * binadeUp n p x \<or> binadeUp n p x = p * 2 ^ n"
proof (induction n arbitrary: p)
  case 0
  show ?case by simp
next
  case (Suc n)
  from Suc.IH [of "2 * p"] show ?case by auto
qed

lemma binadeDown_pow2: "isPow2 p \<Longrightarrow> isPow2 (binadeDown n p x)"
  by (induction n arbitrary: p) (simp_all add: isPow2_half)

lemma binadeDown_gt: "x < 2 * p \<Longrightarrow> x < 2 * binadeDown n p x"
  by (induction n arbitrary: p) simp_all

lemma binadeDown_upper: "0 < p \<Longrightarrow> binadeDown n p x \<le> p"
proof (induction n arbitrary: p)
  case 0
  show ?case by simp
next
  case (Suc n)
  from Suc.IH [of "p / 2"] Suc.prems show ?case by auto
qed

lemma binadeDown_lower: "0 < p \<Longrightarrow> p / 2 ^ n \<le> binadeDown n p x"
proof (induction n arbitrary: p)
  case 0
  show ?case by simp
next
  case (Suc n)
  have "(1::real) \<le> 2 ^ Suc n" by (rule one_le_power) simp
  with Suc.prems have "p / 2 ^ Suc n \<le> p / 1" by (intro divide_left_mono) simp_all
  with Suc.IH [of "p / 2"] Suc.prems show ?case by auto
qed

lemma binadeDown_stop: "binadeDown n p x \<le> x \<or> binadeDown n p x = p / 2 ^ n"
proof (induction n arbitrary: p)
  case 0
  show ?case by simp
next
  case (Suc n)
  from Suc.IH [of "p / 2"] show ?case by auto
qed

lemma minBinade_le_1: "minBinade \<le> 1"
proof -
  have "(1::real) \<le> 2 ^ 1022" by (rule one_le_power) simp
  then have "1 / (2::real) ^ 1022 \<le> 1 / 1" by (intro divide_left_mono) simp_all
  then show ?thesis unfolding minBinade_def by simp
qed

lemma maxBinade_ge_1: "1 \<le> maxBinade"
  unfolding maxBinade_def by (rule one_le_power) simp

text \<open>
  \<open>binade x\<close> is a power of two between \<open>2^-1022\<close> and \<open>2^1024\<close>; unless it is the greatest
  one, \<open>x\<close> is below its double, and unless it is the least one, \<open>x\<close> is not below it.
\<close>

lemma binade_props:
  "isPow2 (binade x) \<and> minBinade \<le> binade x \<and> binade x \<le> maxBinade
   \<and> (x < 2 * binade x \<or> binade x = maxBinade)
   \<and> (binade x \<le> x \<or> binade x = minBinade)"
proof (cases "1 \<le> x")
  case True
  then have e: "binade x = binadeUp 1024 1 x" by (simp add: binade_def)
  have 1: "isPow2 (binadeUp 1024 1 x)" by (rule binadeUp_pow2 [OF isPow2_1])
  have 2: "binadeUp 1024 1 x \<le> x" by (rule binadeUp_le [OF True])
  have 3: "1 \<le> binadeUp 1024 1 x" by (rule binadeUp_lower) simp
  have 4: "binadeUp 1024 1 x \<le> 1 * 2 ^ 1024" by (rule binadeUp_upper) simp
  have 5: "x < 2 * binadeUp 1024 1 x \<or> binadeUp 1024 1 x = 1 * 2 ^ 1024" by (rule binadeUp_stop)
  have m: "(1::real) * 2 ^ 1024 = maxBinade" unfolding maxBinade_def by (rule mult_1)
  from 1 2 3 4 5 minBinade_le_1 show ?thesis unfolding e m by auto
next
  case False
  then have e: "binade x = binadeDown 1022 1 x" by (simp add: binade_def)
  have 1: "isPow2 (binadeDown 1022 1 x)" by (rule binadeDown_pow2 [OF isPow2_1])
  have 2: "x < 2 * binadeDown 1022 1 x" by (rule binadeDown_gt) (use False in simp)
  have 3: "binadeDown 1022 1 x \<le> 1" by (rule binadeDown_upper) simp
  have 4: "minBinade \<le> binadeDown 1022 1 x" unfolding minBinade_def by (rule binadeDown_lower) simp
  have 5: "binadeDown 1022 1 x \<le> x \<or> binadeDown 1022 1 x = minBinade"
    unfolding minBinade_def by (rule binadeDown_stop)
  from 1 2 3 4 5 maxBinade_ge_1 show ?thesis unfolding e by auto
qed

lemma binade_mono:
  assumes "x \<le> y" shows "binade x \<le> binade y"
proof (rule ccontr)
  assume "\<not> binade x \<le> binade y"
  then have lt: "binade y < binade x" by simp
  from binade_props [of x] binade_props [of y] lt
  have g: "2 * binade y \<le> binade x" by (blast intro: isPow2_gap)
  from binade_props [of x] binade_props [of y] lt
  have "y < 2 * binade y" and "binade x \<le> x" by auto
  with g assms show False by linarith
qed

lemma quantum_pos: "0 < quantum x"
proof -
  from binade_props [of x] have "0 < binade x" by (blast intro: isPow2_pos)
  then show ?thesis unfolding quantum_def by simp
qed

lemma binade_quantum: "binade x = of_int (2 ^ 52) * quantum x"
  unfolding quantum_def by simp

lemma roundPos_ge_binade:
  assumes "binade x \<le> x" shows "binade x \<le> roundPos x"
proof -
  have q: "0 < quantum x" by (rule quantum_pos)
  from assms have "of_int (2 ^ 52) * quantum x \<le> x" by (simp only: binade_quantum [symmetric])
  with q have "of_int (2 ^ 52) \<le> x / quantum x" by (simp add: le_divide_eq)
  then have "roundHalfEven (of_int (2 ^ 52)) \<le> roundHalfEven (x / quantum x)" by (rule rhe_mono)
  then have "(2 ^ 52 :: int) \<le> roundHalfEven (x / quantum x)" by (simp only: rhe_int)
  then have "real_of_int (2 ^ 52) \<le> of_int (roundHalfEven (x / quantum x))" by (simp only: of_int_le_iff)
  with q have "of_int (2 ^ 52) * quantum x \<le> of_int (roundHalfEven (x / quantum x)) * quantum x"
    by (intro mult_right_mono) simp_all
  then show ?thesis unfolding roundPos_def by (simp only: binade_quantum [symmetric])
qed

lemma roundPos_le_binade:
  assumes "x < 2 * binade x" shows "roundPos x \<le> 2 * binade x"
proof -
  have q: "0 < quantum x" by (rule quantum_pos)
  have b: "2 * binade x = of_int (2 ^ 53) * quantum x" unfolding quantum_def by simp
  from assms have "x \<le> of_int (2 ^ 53) * quantum x" by (simp only: b)
  with q have "x / quantum x \<le> of_int (2 ^ 53)" by (simp add: divide_le_eq)
  then have "roundHalfEven (x / quantum x) \<le> roundHalfEven (of_int (2 ^ 53))" by (rule rhe_mono)
  then have "roundHalfEven (x / quantum x) \<le> (2 ^ 53 :: int)" by (simp only: rhe_int)
  then have "real_of_int (roundHalfEven (x / quantum x)) \<le> of_int (2 ^ 53)" by (simp only: of_int_le_iff)
  with q have "of_int (roundHalfEven (x / quantum x)) * quantum x \<le> of_int (2 ^ 53) * quantum x"
    by (intro mult_right_mono) simp_all
  then show ?thesis unfolding roundPos_def by (simp only: b)
qed

lemma roundPos_nonneg:
  assumes "0 \<le> x" shows "0 \<le> roundPos x"
proof -
  have q: "0 < quantum x" by (rule quantum_pos)
  with assms have "of_int 0 \<le> x / quantum x" by simp
  then have "roundHalfEven (of_int 0) \<le> roundHalfEven (x / quantum x)" by (rule rhe_mono)
  then have "0 \<le> roundHalfEven (x / quantum x)" by (simp only: rhe_int)
  with q show ?thesis unfolding roundPos_def by simp
qed

lemma roundPos_mono:
  assumes "x \<le> y" shows "roundPos x \<le> roundPos y"
proof (cases "binade x = binade y")
  case True
  then have qe: "quantum x = quantum y" by (simp add: quantum_def)
  have q: "0 < quantum y" by (rule quantum_pos)
  with assms have "x / quantum y \<le> y / quantum y" by (simp add: divide_right_mono)
  then have "roundHalfEven (x / quantum y) \<le> roundHalfEven (y / quantum y)" by (rule rhe_mono)
  then have "real_of_int (roundHalfEven (x / quantum y)) \<le> of_int (roundHalfEven (y / quantum y))"
    by (simp only: of_int_le_iff)
  with q show ?thesis unfolding roundPos_def qe by (intro mult_right_mono) simp_all
next
  case False
  with binade_mono [OF assms] have lt: "binade x < binade y" by simp
  from binade_props [of x] binade_props [of y] lt
  have g: "2 * binade x \<le> binade y" by (blast intro: isPow2_gap)
  from binade_props [of x] binade_props [of y] lt
  have "x < 2 * binade x" and "binade y \<le> y" by auto
  then have "roundPos x \<le> 2 * binade x" and "binade y \<le> roundPos y"
    by (simp_all add: roundPos_le_binade roundPos_ge_binade)
  with g show ?thesis by linarith
qed

text \<open>Rounding to binary64 is monotone.\<close>

lemma dbl_mono:
  assumes "x \<le> y" shows "dbl x \<le> dbl y"
proof -
  have n: "\<And>z. z \<le> 0 \<Longrightarrow> dbl z \<le> 0"
    by (auto simp: dbl_def intro: roundPos_nonneg)
  have p: "\<And>z. 0 \<le> z \<Longrightarrow> 0 \<le> dbl z"
    by (auto simp: dbl_def intro: roundPos_nonneg)
  show ?thesis
  proof (cases "0 < x")
    case True
    with assms show ?thesis by (simp add: dbl_def roundPos_mono)
  next
    case xn: False
    show ?thesis
    proof (cases "0 \<le> y")
      case True
      from n [of x] p [of y] xn True show ?thesis by simp
    next
      case False
      with assms have "- y \<le> - x" "x < 0" "y < 0" by simp_all
      then show ?thesis by (simp add: dbl_def roundPos_mono)
    qed
  qed
qed

lemma roundPos_error: "\<bar>roundPos x - x\<bar> \<le> quantum x / 2"
proof -
  have q: "0 < quantum x" by (rule quantum_pos)
  let ?r = "real_of_int (roundHalfEven (x / quantum x))"
  from rhe_near [of "x / quantum x"] have "\<bar>?r - x / quantum x\<bar> \<le> 1 / 2" by linarith
  with q have "\<bar>?r - x / quantum x\<bar> * quantum x \<le> 1 / 2 * quantum x"
    by (intro mult_right_mono) simp_all
  moreover have "\<bar>?r - x / quantum x\<bar> * quantum x = \<bar>?r * quantum x - x\<bar>"
  proof -
    have "\<bar>?r - x / quantum x\<bar> * quantum x = \<bar>?r - x / quantum x\<bar> * \<bar>quantum x\<bar>"
      using q by simp
    also have "\<dots> = \<bar>(?r - x / quantum x) * quantum x\<bar>" by (simp only: abs_mult)
    also have "(?r - x / quantum x) * quantum x = ?r * quantum x - x"
      using q by (simp add: left_diff_distrib)
    finally show ?thesis .
  qed
  ultimately show ?thesis unfolding roundPos_def by simp
qed

text \<open>Evaluation of the rounding on numerals.\<close>

lemma binadeUp_numeral:
  "binadeUp (numeral k) p x = (if 2 * p \<le> x then binadeUp (pred_numeral k) (2 * p) x else p)"
  by (simp add: numeral_eq_Suc)

lemma binadeDown_numeral:
  "binadeDown (numeral k) p x = (if x < p then binadeDown (pred_numeral k) (p / 2) x else p)"
  by (simp add: numeral_eq_Suc)

lemma atLeastPow_numeral:
  "atLeastPow (numeral k) p y = (if p \<le> y then atLeastPow (pred_numeral k) (2 * p) y else False)"
  by (simp add: numeral_eq_Suc)

lemmas dbl_eval = dbl_def roundPos_def quantum_def binade_def roundHalfEven_def Let_def
  binadeUp_numeral binadeDown_numeral

lemma binade_128: "binade 128 = 128"
  by (simp add: dbl_eval)

text \<open>Up to 128 a rounding moves a value by at most \<open>2^-46\<close>.\<close>

lemma dbl_error_128:
  assumes "0 \<le> x" "x \<le> 128" shows "\<bar>dbl x - x\<bar> \<le> 1 / 2 ^ 46"
proof (cases "x = 0")
  case True
  then show ?thesis by (simp add: dbl_def)
next
  case False
  with assms have e: "dbl x = roundPos x" by (simp add: dbl_def)
  from binade_mono [OF assms(2)] have "binade x \<le> 128" by (simp only: binade_128)
  then have "quantum x / 2 \<le> 128 / 2 ^ 52 / 2" unfolding quantum_def by (simp add: divide_right_mono)
  also have "\<dots> = 1 / 2 ^ 46" by simp
  finally show ?thesis using roundPos_error [of x] unfolding e by linarith
qed

lemma atLeastPow_imp: "atLeastPow n p y \<Longrightarrow> p * 2 ^ n \<le> y"
proof (induction n arbitrary: p)
  case 0
  then show ?case by simp
next
  case (Suc n)
  from Suc.prems have "atLeastPow n (2 * p) y" by (simp split: if_splits)
  from Suc.IH [OF this] show ?case by (simp add: mult.assoc)
qed

lemma atLeastPow_base: "atLeastPow n p y \<Longrightarrow> p \<le> y"
  by (cases n) (simp_all split: if_splits)

text \<open>A result between 0 and 128 is finite.\<close>

lemma toDouble_Fin:
  assumes "0 \<le> dbl x" "dbl x \<le> 128"
  shows "toDouble x = Fin (dbl x)"
proof -
  have a: "\<not> atLeastPow 1024 1 (dbl x)"
  proof
    assume "atLeastPow 1024 1 (dbl x)"
    then have "1 * 2 ^ 1024 \<le> dbl x" by (rule atLeastPow_imp)
    moreover have "(2::real) ^ 8 \<le> 2 ^ 1024" by (rule power_increasing) simp_all
    moreover have "(2::real) ^ 8 = 256" by simp
    ultimately show False using assms(2) by linarith
  qed
  have b: "\<not> atLeastPow 1024 1 (- dbl x)"
  proof
    assume "atLeastPow 1024 1 (- dbl x)"
    then have "1 \<le> - dbl x" by (rule atLeastPow_base)
    with assms(1) show False by linarith
  qed
  from a b show ?thesis by (simp add: toDouble_def Let_def)
qed

lemma dbl_0: "dbl 0 = 0"
  by (simp add: dbl_def)

lemma dbl_range:
  assumes "0 \<le> x" "x \<le> u" "dbl u = v"
  shows "0 \<le> dbl x \<and> dbl x \<le> v"
  using dbl_mono [OF assms(1)] dbl_mono [OF assms(2)] assms(3) by (simp add: dbl_0)

subsection \<open>The arithmetic of the council\<close>

lemma dmul_Fin:
  assumes "0 \<le> dbl (a * b) \<and> dbl (a * b) \<le> 128"
  shows "dmul (Fin a) (Fin b) = Fin (dbl (a * b))"
  using assms by (simp add: dmul_def toDouble_Fin)

lemma dadd_Fin:
  assumes "0 \<le> dbl (a + b) \<and> dbl (a + b) \<le> 128"
  shows "dadd (Fin a) (Fin b) = Fin (dbl (a + b))"
  using assms by (simp add: dadd_def toDouble_Fin)

lemma ddiv_Fin:
  assumes "b \<noteq> 0" "0 \<le> dbl (a / b) \<and> dbl (a / b) \<le> 128"
  shows "ddiv (Fin a) (Fin b) = Fin (dbl (a / b))"
  using assms by (simp add: ddiv_def toDouble_Fin)

text \<open>The binary64 values of the weights and of the two direction thresholds.\<close>

lemma WEIGHTS_values:
  "WEIGHTS STRUCTURE = 1 / 4" "WEIGHTS LIQUIDITY = 1 / 4"
  "WEIGHTS ARRAY = 3602879701896397 / 18014398509481984"
  "WEIGHTS RISK = 5404319552844595 / 36028797018963968"
  "WEIGHTS EXECUTION = 5404319552844595 / 36028797018963968"
  by (simp_all add: WEIGHTS_def lit_def dbl_eval)

lemma threshold_values:
  "lit (3 / 5) = 5404319552844595 / 9007199254740992"
  "lit (2 / 5) = 3602879701896397 / 9007199254740992"
  by (simp_all add: lit_def dbl_eval)

lemma gradeOf_Fin: "gradeOf (Fin x) = stepGrade x"
  by (simp add: gradeOf_def stepGrade_def jge_def)

lemma round_half_up_range:
  fixes x :: real
  assumes "0 \<le> x" "x \<le> 100"
  shows "0 \<le> \<lfloor>x + 1 / 2\<rfloor> \<and> \<lfloor>x + 1 / 2\<rfloor> \<le> 100"
  using assms by linarith

lemma fixedWeights_cases:
  assumes "fixedWeights ags"
  obtains a1 a2 a3 a4 a5 where "ags = [a1, a2, a3, a4, a5]"
    "ag_agent a1 = STRUCTURE" "ag_agent a2 = LIQUIDITY" "ag_agent a3 = ARRAY"
    "ag_agent a4 = RISK" "ag_agent a5 = EXECUTION"
    "ag_weight a1 = 1 / 4" "ag_weight a2 = 1 / 4"
    "ag_weight a3 = 3602879701896397 / 18014398509481984"
    "ag_weight a4 = 5404319552844595 / 36028797018963968"
    "ag_weight a5 = 5404319552844595 / 36028797018963968"
  using assms unfolding fixedWeights_def councilOrder_def
  by (auto simp: map_eq_Cons_conv WEIGHTS_values)

lemma abs_diff_bounds:
  fixes a :: real
  assumes "\<bar>a - b\<bar> \<le> e" shows "a \<le> b + e" and "b - e \<le> a"
  using assms by linarith+

lemma rounding_chain:
  fixes e :: real
  assumes "\<bar>p1 - x1\<bar> \<le> e" "\<bar>p2 - x2\<bar> \<le> e" "\<bar>p3 - x3\<bar> \<le> e" "\<bar>p4 - x4\<bar> \<le> e" "\<bar>p5 - x5\<bar> \<le> e"
    "\<bar>n1 - (0 + p1)\<bar> \<le> e" "\<bar>n2 - (n1 + p2)\<bar> \<le> e" "\<bar>n3 - (n2 + p3)\<bar> \<le> e"
    "\<bar>n4 - (n3 + p4)\<bar> \<le> e" "\<bar>n5 - (n4 + p5)\<bar> \<le> e" "\<bar>c - n5 / 1\<bar> \<le> e"
  shows "\<bar>c - (x1 + x2 + x3 + x4 + x5)\<bar> \<le> 11 * e"
proof -
  note u = assms [THEN abs_diff_bounds(1)]
  note l = assms [THEN abs_diff_bounds(2)]
  from u have "c \<le> x1 + x2 + x3 + x4 + x5 + 11 * e" by linarith
  moreover from l have "x1 + x2 + x3 + x4 + x5 - 11 * e \<le> c" by linarith
  ultimately show ?thesis by linarith
qed

lemma weights_error:
  fixes s1 :: real
  assumes "0 \<le> s1" "s1 \<le> 100" "0 \<le> s2" "s2 \<le> 100" "0 \<le> s3" "s3 \<le> 100"
    "0 \<le> s4" "s4 \<le> 100" "0 \<le> s5" "s5 \<le> 100"
    and "\<bar>c - (s1 * (1 / 4) + s2 * (1 / 4) + s3 * (3602879701896397 / 18014398509481984)
              + s4 * (5404319552844595 / 36028797018963968)
              + s5 * (5404319552844595 / 36028797018963968))\<bar> \<le> 11 * (1 / 2 ^ 46)"
  shows "\<bar>c - (s1 * (1 / 4) + s2 * (1 / 4) + s3 * (1 / 5) + s4 * (3 / 20) + s5 * (3 / 20))\<bar>
         \<le> 1 / 10 ^ 12"
proof -
  have e: "11 * (1 / 2 ^ 46) = (11 / 70368744177664 :: real)" by simp
  note b = assms(11) [unfolded e, THEN abs_diff_bounds(1)] assms(11) [unfolded e, THEN abs_diff_bounds(2)]
  from b assms(1-10) have
    "c \<le> s1 * (1 / 4) + s2 * (1 / 4) + s3 * (1 / 5) + s4 * (3 / 20) + s5 * (3 / 20)
          + 1 / 1000000000000"
    and "s1 * (1 / 4) + s2 * (1 / 4) + s3 * (1 / 5) + s4 * (3 / 20) + s5 * (3 / 20)
          - 1 / 1000000000000 \<le> c"
    by linarith+
  then have "\<bar>c - (s1 * (1 / 4) + s2 * (1 / 4) + s3 * (1 / 5) + s4 * (3 / 20) + s5 * (3 / 20))\<bar>
         \<le> 1 / 1000000000000" by linarith
  then show ?thesis by simp
qed

text \<open>
  The computation of the council on five signals with the fixed weights and scores in
  [0,100]: no intermediate result leaves [0,100], the weights sum to exactly 1, and each
  of the eleven roundings moves the value by at most \<open>2^-46\<close>.
\<close>

lemma council_computation:
  assumes "fixedWeights ags" and "\<forall>a \<in> set ags. 0 \<le> ag_score a \<and> ag_score a \<le> 100"
  shows "totalWeight ags = Fin 1 \<and> rawConsensus ags = Fin (doubleAverage ags)
       \<and> 0 \<le> doubleAverage ags \<and> doubleAverage ags \<le> 100
       \<and> \<bar>doubleAverage ags - weightedAverage ags\<bar> \<le> 1 / 10 ^ 12"
proof -
  from assms(1) obtain a1 a2 a3 a4 a5 where
    ags: "ags = [a1, a2, a3, a4, a5]" and
    n: "ag_agent a1 = STRUCTURE" "ag_agent a2 = LIQUIDITY" "ag_agent a3 = ARRAY"
       "ag_agent a4 = RISK" "ag_agent a5 = EXECUTION" and
    w: "ag_weight a1 = 1 / 4" "ag_weight a2 = 1 / 4"
       "ag_weight a3 = 3602879701896397 / 18014398509481984"
       "ag_weight a4 = 5404319552844595 / 36028797018963968"
       "ag_weight a5 = 5404319552844595 / 36028797018963968"
    by (rule fixedWeights_cases)
  define s1 s2 s3 s4 s5 where
    s_def: "s1 = ag_score a1" "s2 = ag_score a2" "s3 = ag_score a3" "s4 = ag_score a4"
           "s5 = ag_score a5"
  from assms(2) ags have s:
    "0 \<le> s1" "s1 \<le> 100" "0 \<le> s2" "s2 \<le> 100" "0 \<le> s3" "s3 \<le> 100"
    "0 \<le> s4" "s4 \<le> 100" "0 \<le> s5" "s5 \<le> 100" by (simp_all add: s_def)
  define x1 where "x1 = s1 * (1 / 4)"
  define x2 where "x2 = s2 * (1 / 4)"
  define x3 where "x3 = s3 * (3602879701896397 / 18014398509481984)"
  define x4 where "x4 = s4 * (5404319552844595 / 36028797018963968)"
  define x5 where "x5 = s5 * (5404319552844595 / 36028797018963968)"
  define p1 where "p1 = dbl x1"
  define p2 where "p2 = dbl x2"
  define p3 where "p3 = dbl x3"
  define p4 where "p4 = dbl x4"
  define p5 where "p5 = dbl x5"
  have x: "0 \<le> x1" "x1 \<le> 100 * (1 / 4)" "0 \<le> x2" "x2 \<le> 100 * (1 / 4)"
    "0 \<le> x3" "x3 \<le> 100 * (3602879701896397 / 18014398509481984)"
    "0 \<le> x4" "x4 \<le> 100 * (5404319552844595 / 36028797018963968)"
    "0 \<le> x5" "x5 \<le> 100 * (5404319552844595 / 36028797018963968)"
    using s unfolding x1_def x2_def x3_def x4_def x5_def by simp_all
  have p1b: "0 \<le> p1 \<and> p1 \<le> 25" unfolding p1_def
    by (rule dbl_range [OF x(1) x(2)]) (simp add: dbl_eval)
  have p2b: "0 \<le> p2 \<and> p2 \<le> 25" unfolding p2_def
    by (rule dbl_range [OF x(3) x(4)]) (simp add: dbl_eval)
  have p3b: "0 \<le> p3 \<and> p3 \<le> 20" unfolding p3_def
    by (rule dbl_range [OF x(5) x(6)]) (simp add: dbl_eval)
  have p4b: "0 \<le> p4 \<and> p4 \<le> 15" unfolding p4_def
    by (rule dbl_range [OF x(7) x(8)]) (simp add: dbl_eval)
  have p5b: "0 \<le> p5 \<and> p5 \<le> 15" unfolding p5_def
    by (rule dbl_range [OF x(9) x(10)]) (simp add: dbl_eval)
  define n1 where "n1 = dbl (0 + p1)"
  define n2 where "n2 = dbl (n1 + p2)"
  define n3 where "n3 = dbl (n2 + p3)"
  define n4 where "n4 = dbl (n3 + p4)"
  define n5 where "n5 = dbl (n4 + p5)"
  define c where "c = dbl (n5 / 1)"
  have n1b: "0 \<le> n1 \<and> n1 \<le> 25" unfolding n1_def
    by (rule dbl_range [where u = "0 + 25"]) (use p1b in \<open>simp_all add: dbl_eval\<close>)
  have n2b: "0 \<le> n2 \<and> n2 \<le> 50" unfolding n2_def
    by (rule dbl_range [where u = "25 + 25"]) (use n1b p2b in \<open>simp_all add: dbl_eval\<close>)
  have n3b: "0 \<le> n3 \<and> n3 \<le> 70" unfolding n3_def
    by (rule dbl_range [where u = "50 + 20"]) (use n2b p3b in \<open>simp_all add: dbl_eval\<close>)
  have n4b: "0 \<le> n4 \<and> n4 \<le> 85" unfolding n4_def
    by (rule dbl_range [where u = "70 + 15"]) (use n3b p4b in \<open>simp_all add: dbl_eval\<close>)
  have n5b: "0 \<le> n5 \<and> n5 \<le> 100" unfolding n5_def
    by (rule dbl_range [where u = "85 + 15"]) (use n4b p5b in \<open>simp_all add: dbl_eval\<close>)
  have cb: "0 \<le> c \<and> c \<le> 100" unfolding c_def
    by (rule dbl_range [where u = "100 / 1"]) (use n5b in \<open>simp_all add: dbl_eval\<close>)
  have m1: "dmul (Fin (ag_score a1)) (Fin (ag_weight a1)) = Fin p1"
    using p1b unfolding w s_def [symmetric] p1_def x1_def by (intro dmul_Fin) simp
  have m2: "dmul (Fin (ag_score a2)) (Fin (ag_weight a2)) = Fin p2"
    using p2b unfolding w s_def [symmetric] p2_def x2_def by (intro dmul_Fin) simp
  have m3: "dmul (Fin (ag_score a3)) (Fin (ag_weight a3)) = Fin p3"
    using p3b unfolding w s_def [symmetric] p3_def x3_def by (intro dmul_Fin) simp
  have m4: "dmul (Fin (ag_score a4)) (Fin (ag_weight a4)) = Fin p4"
    using p4b unfolding w s_def [symmetric] p4_def x4_def by (intro dmul_Fin) simp
  have m5: "dmul (Fin (ag_score a5)) (Fin (ag_weight a5)) = Fin p5"
    using p5b unfolding w s_def [symmetric] p5_def x5_def by (intro dmul_Fin) simp
  have d1: "dadd (Fin 0) (Fin p1) = Fin n1"
    using n1b unfolding n1_def by (intro dadd_Fin) simp
  have d2: "dadd (Fin n1) (Fin p2) = Fin n2"
    using n2b unfolding n2_def by (intro dadd_Fin) simp
  have d3: "dadd (Fin n2) (Fin p3) = Fin n3"
    using n3b unfolding n3_def by (intro dadd_Fin) simp
  have d4: "dadd (Fin n3) (Fin p4) = Fin n4"
    using n4b unfolding n4_def by (intro dadd_Fin) simp
  have d5: "dadd (Fin n4) (Fin p5) = Fin n5"
    using n5b unfolding n5_def by (intro dadd_Fin) simp
  have ws: "weightedSum ags = Fin n5"
    unfolding weightedSum_def ags by (simp only: foldl.simps m1 m2 m3 m4 m5 d1 d2 d3 d4 d5)
  have tw: "totalWeight ags = Fin 1"
    unfolding totalWeight_def ags
    by (simp add: w dadd_def toDouble_def atLeastPow_numeral dbl_eval)
  have q: "ddiv (Fin n5) (Fin 1) = Fin c"
    using cb unfolding c_def by (intro ddiv_Fin) simp_all
  have raw: "rawConsensus ags = Fin c"
    unfolding rawConsensus_def ws tw by (rule q)
  have dw: "doubleSum (map ag_weight ags) = 1"
    unfolding doubleSum_def ags by (simp add: w dbl_eval)
  have dp: "doubleSum (map (\<lambda>a. dbl (ag_score a * ag_weight a)) ags) = n5"
    unfolding doubleSum_def ags
    by (simp add: w s_def [symmetric] n1_def n2_def n3_def n4_def n5_def
        p1_def p2_def p3_def p4_def p5_def x1_def x2_def x3_def x4_def x5_def)
  have da: "doubleAverage ags = c"
    unfolding doubleAverage_def dw dp c_def ..
  have wa: "weightedAverage ags
              = s1 * (1 / 4) + s2 * (1 / 4) + s3 * (1 / 5) + s4 * (3 / 20) + s5 * (3 / 20)"
    unfolding weightedAverage_def ags
    by (simp add: n nominalWeight_def s_def [symmetric])
  have e1: "\<bar>p1 - x1\<bar> \<le> 1 / 2 ^ 46" unfolding p1_def
    by (rule dbl_error_128) (use x in simp_all)
  have e2: "\<bar>p2 - x2\<bar> \<le> 1 / 2 ^ 46" unfolding p2_def
    by (rule dbl_error_128) (use x in simp_all)
  have e3: "\<bar>p3 - x3\<bar> \<le> 1 / 2 ^ 46" unfolding p3_def
    by (rule dbl_error_128) (use x in simp_all)
  have e4: "\<bar>p4 - x4\<bar> \<le> 1 / 2 ^ 46" unfolding p4_def
    by (rule dbl_error_128) (use x in simp_all)
  have e5: "\<bar>p5 - x5\<bar> \<le> 1 / 2 ^ 46" unfolding p5_def
    by (rule dbl_error_128) (use x in simp_all)
  have f1: "\<bar>n1 - (0 + p1)\<bar> \<le> 1 / 2 ^ 46" unfolding n1_def
    by (rule dbl_error_128) (use p1b in simp_all)
  have f2: "\<bar>n2 - (n1 + p2)\<bar> \<le> 1 / 2 ^ 46" unfolding n2_def
    by (rule dbl_error_128) (use n1b p2b in simp_all)
  have f3: "\<bar>n3 - (n2 + p3)\<bar> \<le> 1 / 2 ^ 46" unfolding n3_def
    by (rule dbl_error_128) (use n2b p3b in simp_all)
  have f4: "\<bar>n4 - (n3 + p4)\<bar> \<le> 1 / 2 ^ 46" unfolding n4_def
    by (rule dbl_error_128) (use n3b p4b in simp_all)
  have f5: "\<bar>n5 - (n4 + p5)\<bar> \<le> 1 / 2 ^ 46" unfolding n5_def
    by (rule dbl_error_128) (use n4b p5b in simp_all)
  have g: "\<bar>c - n5 / 1\<bar> \<le> 1 / 2 ^ 46" unfolding c_def
    by (rule dbl_error_128) (use n5b in simp_all)
  have "\<bar>c - (x1 + x2 + x3 + x4 + x5)\<bar> \<le> 11 * (1 / 2 ^ 46)"
    by (rule rounding_chain [OF e1 e2 e3 e4 e5 f1 f2 f3 f4 f5 g])
  then have err: "\<bar>c - weightedAverage ags\<bar> \<le> 1 / 10 ^ 12"
    unfolding wa x1_def x2_def x3_def x4_def x5_def
    by (rule weights_error [OF s])
  from tw raw cb err show ?thesis unfolding da by simp
qed

subsection \<open>Consensus score and grade\<close>

text \<open>
  C1 (as amended). For the five signals of the council with the fixed weights and scores
  in [0,100], the consensus the council computes is the weighted average
  \<open>\<Sum>(score\<times>weight)/\<Sum>(weight)\<close> evaluated in binary64 arithmetic from left to right; it
  differs from the exact weighted average by at most \<open>10^-12\<close> and lies in [0,100]. The grade
  is the step function of that computed, unrounded value (at least 90 is A+, at least 80 is
  A, at least 65 is B, otherwise C, so computed values of exactly 65, 80 and 90 give B, A
  and A+). The consensus score stored in the council is the computed value rounded to the
  nearest integer, halves up, and lies in [0,100] as well.
\<close>

theorem runCouncil_consensus_grade:
  assumes "fixedWeights ags" and "\<forall>a \<in> set ags. 0 \<le> ag_score a \<and> ag_score a \<le> 100"
  shows "rawConsensus ags = Fin (doubleAverage ags)
       \<and> \<bar>doubleAverage ags - weightedAverage ags\<bar> \<le> 1 / 10 ^ 12
       \<and> 0 \<le> doubleAverage ags \<and> doubleAverage ags \<le> 100
       \<and> co_grade (runCouncil ags) = stepGrade (doubleAverage ags)
       \<and> co_consensusScore (runCouncil ags) = Fin (of_int \<lfloor>doubleAverage ags + 1 / 2\<rfloor>)
       \<and> 0 \<le> \<lfloor>doubleAverage ags + 1 / 2\<rfloor> \<and> \<lfloor>doubleAverage ags + 1 / 2\<rfloor> \<le> 100
       \<and> stepGrade 65 = Grade_B \<and> stepGrade 80 = Grade_A \<and> stepGrade 90 = Grade_Aplus"
proof -
  from council_computation [OF assms] have
    raw: "rawConsensus ags = Fin (doubleAverage ags)" and
    err: "\<bar>doubleAverage ags - weightedAverage ags\<bar> \<le> 1 / 10 ^ 12" and
    b: "0 \<le> doubleAverage ags \<and> doubleAverage ags \<le> 100"
    by simp_all
  have g: "co_grade (runCouncil ags) = stepGrade (doubleAverage ags)"
    by (simp add: runCouncil_def raw gradeOf_Fin)
  have c: "co_consensusScore (runCouncil ags) = Fin (of_int \<lfloor>doubleAverage ags + 1 / 2\<rfloor>)"
    by (simp add: runCouncil_def raw)
  have r: "0 \<le> \<lfloor>doubleAverage ags + 1 / 2\<rfloor> \<and> \<lfloor>doubleAverage ags + 1 / 2\<rfloor> \<le> 100"
    using b round_half_up_range by blast
  have st: "stepGrade 65 = Grade_B \<and> stepGrade 80 = Grade_A \<and> stepGrade 90 = Grade_Aplus"
    by (simp add: stepGrade_def)
  from raw err b g c r st show ?thesis by blast
qed

text \<open>
  The scenario of the specification: scores 80, 70, 60, 50, 40 give the average 63 and
  the grade C.
\<close>

theorem runCouncil_consensus_grade_witness:
  "rawConsensus (councilInput [(80, True), (70, True), (60, True), (50, True), (40, True)])
     = Fin 63
   \<and> co_grade (runCouncil (councilInput [(80, True), (70, True), (60, True), (50, True), (40, True)]))
     = Grade_C
   \<and> co_consensusScore
       (runCouncil (councilInput [(80, True), (70, True), (60, True), (50, True), (40, True)]))
     = Fin 63"
proof -
  let ?ags = "councilInput [(80, True), (70, True), (60, True), (50, True), (40, True)]"
  have fw: "fixedWeights ?ags"
    by (simp add: fixedWeights_def councilInput_def councilOrder_def)
  have sc: "\<forall>a \<in> set ?ags. 0 \<le> ag_score a \<and> ag_score a \<le> 100"
    by (simp add: councilInput_def councilOrder_def)
  have avg: "doubleAverage ?ags = 63"
    by (simp add: doubleAverage_def doubleSum_def councilInput_def councilOrder_def
        WEIGHTS_values dbl_eval)
  from runCouncil_consensus_grade [OF fw sc] show ?thesis
    by (simp add: avg stepGrade_def)
qed

text \<open>
  C1 as stated fails on the rounding of the arithmetic and on the rounding of the stored
  score. With scores 100, 100, 99, 64, 4 the weighted average is exactly 80, which the
  step function grades A; the council computes 79.99999999999999 (the sum
  25 + 25 + 19.8 + 9.6 + 0.6 in binary64) and grades B. With scores 100, 100, 99, 99, 79
  the weighted average is exactly 96.5; the council computes 96.49999999999999 and stores
  96. With scores 90, 90, 90, 90, 87 the weighted average is 89.55, the council stores 90
  as the consensus score, and the grade is A although the step function gives A+ at 90.
\<close>

theorem runCouncil_rounding_counterexample:
  "weightedAverage (councilInput [(100, True), (100, True), (99, True), (64, True), (4, True)])
     = 80
   \<and> stepGrade 80 = Grade_A
   \<and> rawConsensus (councilInput [(100, True), (100, True), (99, True), (64, True), (4, True)])
     = Fin (5629499534213119 / 70368744177664)
   \<and> co_grade (runCouncil (councilInput [(100, True), (100, True), (99, True), (64, True), (4, True)]))
     = Grade_B
   \<and> weightedAverage (councilInput [(100, True), (100, True), (99, True), (99, True), (79, True)])
     = 96.5
   \<and> rawConsensus (councilInput [(100, True), (100, True), (99, True), (99, True), (79, True)])
     = Fin (6790583813144575 / 70368744177664)
   \<and> co_consensusScore
       (runCouncil (councilInput [(100, True), (100, True), (99, True), (99, True), (79, True)]))
     = Fin 96
   \<and> co_consensusScore (runCouncil (councilInput [(90, True), (90, True), (90, True), (90, True), (87, True)]))
     \<noteq> Fin (weightedAverage (councilInput [(90, True), (90, True), (90, True), (90, True), (87, True)]))
   \<and> co_grade (runCouncil (councilInput [(90, True), (90, True), (90, True), (90, True), (87, True)]))
     \<noteq> gradeOf (co_consensusScore
          (runCouncil (councilInput [(90, True), (90, True), (90, True), (90, True), (87, True)])))"
proof -
  let ?a = "councilInput [(100, True), (100, True), (99, True), (64, True), (4, True)]"
  let ?b = "councilInput [(90, True), (90, True), (90, True), (90, True), (87, True)]"
  have 1: "weightedAverage ?a = 80"
    by (simp add: weightedAverage_def councilInput_def councilOrder_def nominalWeight_def)
  have 2: "stepGrade 80 = Grade_A"
    by (simp add: stepGrade_def)
  have 3: "rawConsensus ?a = Fin (5629499534213119 / 70368744177664)"
    by (simp add: rawConsensus_def weightedSum_def totalWeight_def councilInput_def councilOrder_def
        WEIGHTS_values dadd_def dmul_def ddiv_def toDouble_def atLeastPow_numeral dbl_eval)
  have 4: "co_grade (runCouncil ?a) = Grade_B"
    by (simp add: runCouncil_def 3 gradeOf_def jge_def)
  have 5: "rawConsensus ?b = Fin (6301521041109811 / 70368744177664)"
    by (simp add: rawConsensus_def weightedSum_def totalWeight_def councilInput_def councilOrder_def
        WEIGHTS_values dadd_def dmul_def ddiv_def toDouble_def atLeastPow_numeral dbl_eval)
  have 6: "weightedAverage ?b = 1791 / 20"
    by (simp add: weightedAverage_def councilInput_def councilOrder_def nominalWeight_def)
  have 7: "co_consensusScore (runCouncil ?b) \<noteq> Fin (weightedAverage ?b)"
    by (simp add: runCouncil_def 5 6)
  have 8: "co_grade (runCouncil ?b) \<noteq> gradeOf (co_consensusScore (runCouncil ?b))"
    by (simp add: runCouncil_def 5 gradeOf_def jge_def)
  let ?c = "councilInput [(100, True), (100, True), (99, True), (99, True), (79, True)]"
  have 9: "weightedAverage ?c = 96.5"
    by (simp add: weightedAverage_def councilInput_def councilOrder_def nominalWeight_def)
  have 10: "rawConsensus ?c = Fin (6790583813144575 / 70368744177664)"
    by (simp add: rawConsensus_def weightedSum_def totalWeight_def councilInput_def councilOrder_def
        WEIGHTS_values dadd_def dmul_def ddiv_def toDouble_def atLeastPow_numeral dbl_eval)
  have 11: "co_consensusScore (runCouncil ?c) = Fin 96"
    by (simp add: runCouncil_def 10)
  from 1 2 3 4 7 8 9 10 11 show ?thesis by blast
qed


subsection \<open>Direction vote\<close>

text \<open>
  C5 (as amended). For every list of signals the direction of the council is LONG when the
  weights of the signals whose bullish flag is set, summed in binary64 arithmetic in the
  order of the list, exceed the binary64 number 0.6, SHORT when that sum is below the
  binary64 number 0.4, and no direction otherwise (a value of the result, not an error).
  For the five signals of the council in the order of the council, whatever their flags,
  this is the same as comparing the exact sum of the decimal weights with 0.6 and 0.4.
\<close>

theorem runCouncil_direction:
  "co_direction (runCouncil ags) =
     (if jgt (bullishVotes ags) (Fin (lit 0.6)) then Some LONG
      else if jlt (bullishVotes ags) (Fin (lit 0.4)) then Some SHORT
      else None)
   \<and> (fixedWeights ags \<longrightarrow>
        co_direction (runCouncil ags) = specDirection (nominalBullish ags))"
proof (intro conjI impI)
  show "co_direction (runCouncil ags) =
     (if jgt (bullishVotes ags) (Fin (lit 0.6)) then Some LONG
      else if jlt (bullishVotes ags) (Fin (lit 0.4)) then Some SHORT
      else None)"
    by (simp add: runCouncil_def)
next
  assume "fixedWeights ags"
  then obtain a1 a2 a3 a4 a5 where
    ags: "ags = [a1, a2, a3, a4, a5]" and
    n: "ag_agent a1 = STRUCTURE" "ag_agent a2 = LIQUIDITY" "ag_agent a3 = ARRAY"
       "ag_agent a4 = RISK" "ag_agent a5 = EXECUTION" and
    w: "ag_weight a1 = 1 / 4" "ag_weight a2 = 1 / 4"
       "ag_weight a3 = 3602879701896397 / 18014398509481984"
       "ag_weight a4 = 5404319552844595 / 36028797018963968"
       "ag_weight a5 = 5404319552844595 / 36028797018963968"
    by (rule fixedWeights_cases)
  show "co_direction (runCouncil ags) = specDirection (nominalBullish ags)"
    unfolding ags runCouncil_def bullishVotes_def nominalBullish_def specDirection_def
    by (cases "ag_bullish a1"; cases "ag_bullish a2"; cases "ag_bullish a3";
        cases "ag_bullish a4"; cases "ag_bullish a5")
       (simp_all add: n w threshold_values nominalWeight_def jgt_def dadd_def toDouble_def
          atLeastPow_numeral dbl_eval)
qed

text \<open>
  In the order of the council, bullish weights 0.25 + 0.25 + 0.20 = 0.70 give LONG,
  0.20 + 0.15 = 0.35 give SHORT, and 0.25 + 0.20 + 0.15 = 0.60 give no direction.
\<close>

theorem runCouncil_direction_witness:
  "co_direction (runCouncil (councilInput [(80, True), (70, True), (60, True), (50, False), (40, False)]))
     = Some LONG
   \<and> co_direction (runCouncil (councilInput [(80, False), (70, False), (60, True), (50, False), (40, True)]))
     = Some SHORT
   \<and> co_direction (runCouncil (councilInput [(80, True), (70, False), (60, True), (50, True), (40, False)]))
     = None"
proof -
  let ?a = "councilInput [(80, True), (70, True), (60, True), (50, False), (40, False)]"
  let ?b = "councilInput [(80, False), (70, False), (60, True), (50, False), (40, True)]"
  let ?c = "councilInput [(80, True), (70, False), (60, True), (50, True), (40, False)]"
  have fw: "fixedWeights ?a" "fixedWeights ?b" "fixedWeights ?c"
    by (simp_all add: fixedWeights_def councilInput_def councilOrder_def)
  have nb: "nominalBullish ?a = 7 / 10" "nominalBullish ?b = 7 / 20" "nominalBullish ?c = 3 / 5"
    by (simp_all add: nominalBullish_def councilInput_def councilOrder_def nominalWeight_def)
  from runCouncil_direction [of ?a, THEN conjunct2, rule_format, OF fw(1)]
       runCouncil_direction [of ?b, THEN conjunct2, rule_format, OF fw(2)]
       runCouncil_direction [of ?c, THEN conjunct2, rule_format, OF fw(3)]
  show ?thesis by (simp add: nb specDirection_def)
qed

text \<open>
  C5 as stated fails for a list in another order. With the bullish signals of the
  structure, risk and array agents listed first, in this order, the weights 0.25, 0.15 and
  0.20 sum to exactly 0.6, which does not exceed 0.6, so the claim gives no direction; the
  council computes 0.25 + 0.15 = 0.4 and 0.4 + 0.2 = 0.6000000000000001 in binary64, which
  exceeds the binary64 number 0.6, and returns LONG.
\<close>

theorem runCouncil_direction_counterexample:
  "nominalBullish (reorderedInput [(80, True), (50, True), (60, True), (70, False), (40, False)])
     = 0.6
   \<and> specDirection (nominalBullish
        (reorderedInput [(80, True), (50, True), (60, True), (70, False), (40, False)])) = None
   \<and> bullishVotes (reorderedInput [(80, True), (50, True), (60, True), (70, False), (40, False)])
     = Fin (1351079888211149 / 2251799813685248)
   \<and> lit 0.6 = 5404319552844595 / 9007199254740992
   \<and> co_direction (runCouncil
        (reorderedInput [(80, True), (50, True), (60, True), (70, False), (40, False)]))
     = Some LONG"
proof -
  let ?r = "reorderedInput [(80, True), (50, True), (60, True), (70, False), (40, False)]"
  have 1: "nominalBullish ?r = 0.6"
    by (simp add: nominalBullish_def reorderedInput_def nominalWeight_def)
  have 2: "specDirection (nominalBullish ?r) = None"
    by (simp add: 1 specDirection_def)
  have 3: "bullishVotes ?r = Fin (1351079888211149 / 2251799813685248)"
    by (simp add: bullishVotes_def reorderedInput_def WEIGHTS_values dadd_def toDouble_def
        atLeastPow_numeral dbl_eval)
  have 4: "lit 0.6 = 5404319552844595 / 9007199254740992"
    by (simp add: threshold_values)
  have 5: "co_direction (runCouncil ?r) = Some LONG"
    by (simp add: runCouncil_def 3 threshold_values jgt_def)
  from 1 2 3 4 5 show ?thesis by blast
qed

subsection \<open>Swing pivots\<close>

lemma set_jsInsert: "set (jsInsert cmp x ys) = insert x (set ys)"
  by (induction ys) auto

lemma set_jsSort: "set (jsSort cmp xs) = set xs"
  unfolding jsSort_def by (induction xs) (simp_all add: set_jsInsert)

lemma isPivotHigh_iff:
  "isPivotHigh candles L R i \<longleftrightarrow>
     (\<forall>j. i - L \<le> j \<and> j \<le> i + R \<and> j \<noteq> i \<longrightarrow> c_high (candles ! j) < c_high (candles ! i))"
  unfolding isPivotHigh_def list_all_iff by (auto simp: not_le)

lemma isPivotLow_iff:
  "isPivotLow candles L R i \<longleftrightarrow>
     (\<forall>j. i - L \<le> j \<and> j \<le> i + R \<and> j \<noteq> i \<longrightarrow> c_low (candles ! i) < c_low (candles ! j))"
  unfolding isPivotLow_def list_all_iff by (auto simp: not_le)

lemma set_detectSwings:
  "set (detectSwings candles L R) =
     (\<Union>i \<in> {L ..< length candles - R}. set (swingsAt candles L R i))"
  by (simp add: detectSwings_def set_jsSort)

lemma swingsAt_high:
  "(\<exists>s \<in> set (swingsAt candles L R k). sw_index s = i \<and> sw_type s = HIGH) \<longleftrightarrow>
     (k = i \<and> isPivotHigh candles L R i)"
  by (auto simp: swingsAt_def Let_def)

lemma swingsAt_low:
  "(\<exists>s \<in> set (swingsAt candles L R k). sw_index s = i \<and> sw_type s = LOW) \<longleftrightarrow>
     (k = i \<and> isPivotLow candles L R i)"
  by (auto simp: swingsAt_def Let_def)

text \<open>
  C4. For every candle sequence and lookbacks \<open>L\<close>, \<open>R\<close>, the swing detector returns a HIGH
  pivot at index \<open>i\<close> if and only if \<open>i\<close> has \<open>L\<close> candles before it and \<open>R\<close> after it and
  its high is strictly greater than every other high in \<open>[i-L, i+R]\<close> (so a tie with a
  neighbour disqualifies it); a LOW pivot likewise with a strictly smallest low; and the
  result is empty when the sequence has fewer than \<open>L+R+1\<close> candles.
\<close>

theorem detectSwings_pivots:
  "((\<exists>s \<in> set (detectSwings candles L R). sw_index s = i \<and> sw_type s = HIGH) \<longleftrightarrow>
      (L \<le> i \<and> i + R < length candles \<and>
       (\<forall>j. i - L \<le> j \<and> j \<le> i + R \<and> j \<noteq> i
            \<longrightarrow> c_high (candles ! j) < c_high (candles ! i))))
   \<and> ((\<exists>s \<in> set (detectSwings candles L R). sw_index s = i \<and> sw_type s = LOW) \<longleftrightarrow>
      (L \<le> i \<and> i + R < length candles \<and>
       (\<forall>j. i - L \<le> j \<and> j \<le> i + R \<and> j \<noteq> i
            \<longrightarrow> c_low (candles ! i) < c_low (candles ! j))))
   \<and> (length candles < L + R + 1 \<longrightarrow> detectSwings candles L R = [])"
proof (intro conjI)
  have "(\<exists>s \<in> set (detectSwings candles L R). sw_index s = i \<and> sw_type s = HIGH) \<longleftrightarrow>
        (\<exists>k \<in> {L ..< length candles - R}.
           \<exists>s \<in> set (swingsAt candles L R k). sw_index s = i \<and> sw_type s = HIGH)"
    unfolding set_detectSwings by blast
  also have "\<dots> \<longleftrightarrow> (L \<le> i \<and> i + R < length candles \<and> isPivotHigh candles L R i)"
    unfolding swingsAt_high by auto
  finally show "(\<exists>s \<in> set (detectSwings candles L R). sw_index s = i \<and> sw_type s = HIGH) \<longleftrightarrow>
      (L \<le> i \<and> i + R < length candles \<and>
       (\<forall>j. i - L \<le> j \<and> j \<le> i + R \<and> j \<noteq> i
            \<longrightarrow> c_high (candles ! j) < c_high (candles ! i)))"
    unfolding isPivotHigh_iff .
next
  have "(\<exists>s \<in> set (detectSwings candles L R). sw_index s = i \<and> sw_type s = LOW) \<longleftrightarrow>
        (\<exists>k \<in> {L ..< length candles - R}.
           \<exists>s \<in> set (swingsAt candles L R k). sw_index s = i \<and> sw_type s = LOW)"
    unfolding set_detectSwings by blast
  also have "\<dots> \<longleftrightarrow> (L \<le> i \<and> i + R < length candles \<and> isPivotLow candles L R i)"
    unfolding swingsAt_low by auto
  finally show "(\<exists>s \<in> set (detectSwings candles L R). sw_index s = i \<and> sw_type s = LOW) \<longleftrightarrow>
      (L \<le> i \<and> i + R < length candles \<and>
       (\<forall>j. i - L \<le> j \<and> j \<le> i + R \<and> j \<noteq> i
            \<longrightarrow> c_low (candles ! i) < c_low (candles ! j)))"
    unfolding isPivotLow_iff .
next
  show "length candles < L + R + 1 \<longrightarrow> detectSwings candles L R = []"
    by (simp add: detectSwings_def jsSort_def)
qed

text \<open>
  The scenario of the specification: with highs 10, 12, 15, 11, 9 and \<open>L = R = 1\<close> index 2
  is a HIGH pivot and index 1 is not; two candles are too few for \<open>L = R = 1\<close>.
\<close>

theorem detectSwings_pivots_witness:
  "(\<exists>s \<in> set (detectSwings swingScenario 1 1). sw_index s = 2 \<and> sw_type s = HIGH)
   \<and> \<not> (\<exists>s \<in> set (detectSwings swingScenario 1 1). sw_index s = 1 \<and> sw_type s = HIGH)
   \<and> detectSwings (take 2 swingScenario) 1 1 = []"
proof -
  have len: "length swingScenario = 5"
    by (simp add: swingScenario_def)
  have h: "map c_high swingScenario = [10, 12, 15, 11, 9]"
    by (simp add: swingScenario_def candleHL_def)
  have nth: "c_high (swingScenario ! j) = [10, 12, 15, 11, 9] ! j" if "j < 5" for j
    using that h len by (metis nth_map)
  have two: "\<forall>j. 2 - 1 \<le> j \<and> j \<le> 2 + 1 \<and> j \<noteq> 2
               \<longrightarrow> c_high (swingScenario ! j) < c_high (swingScenario ! 2)"
  proof (intro allI impI)
    fix j :: nat
    assume "2 - 1 \<le> j \<and> j \<le> 2 + 1 \<and> j \<noteq> 2"
    then have "j = 1 \<or> j = 3" by arith
    then show "c_high (swingScenario ! j) < c_high (swingScenario ! 2)"
      by (auto simp: nth)
  qed
  have one: "\<not> (\<forall>j. 1 - 1 \<le> j \<and> j \<le> 1 + 1 \<and> j \<noteq> 1
               \<longrightarrow> c_high (swingScenario ! j) < c_high (swingScenario ! 1))"
  proof
    assume "\<forall>j. 1 - 1 \<le> j \<and> j \<le> 1 + 1 \<and> j \<noteq> 1
               \<longrightarrow> c_high (swingScenario ! j) < c_high (swingScenario ! 1)"
    then have "c_high (swingScenario ! 2) < c_high (swingScenario ! 1)" by simp
    then show False by (simp add: nth)
  qed
  from detectSwings_pivots [of swingScenario 1 1 2] two len
  have a: "\<exists>s \<in> set (detectSwings swingScenario 1 1). sw_index s = 2 \<and> sw_type s = HIGH"
    by simp
  from detectSwings_pivots [of swingScenario 1 1 1] one
  have b: "\<not> (\<exists>s \<in> set (detectSwings swingScenario 1 1). sw_index s = 1 \<and> sw_type s = HIGH)"
    by blast
  from detectSwings_pivots [of "take 2 swingScenario" 1 1 0] len
  have c: "detectSwings (take 2 swingScenario) 1 1 = []"
    by simp
  from a b c show ?thesis by blast
qed

subsection \<open>Profit factor\<close>

lemma foldl_jadd_filter_Fin:
  "map f ts = map Fin ps \<Longrightarrow>
   foldl (\<lambda>s t. jadd s (f t)) (Fin z) (filter (\<lambda>t. Q (f t)) ts)
     = Fin (z + sum_list (filter (\<lambda>p. Q (Fin p)) ps))"
proof (induction ts arbitrary: ps z)
  case Nil
  then show ?case by simp
next
  case (Cons t ts)
  then obtain p ps' where "ps = p # ps'" "f t = Fin p" "map f ts = map Fin ps'"
    by (cases ps) auto
  with Cons.IH [of ps'] show ?case by (simp add: add.assoc)
qed

lemma finitePnl_pnlOr0: "finitePnl trades ps \<Longrightarrow> map pnlOr0 trades = map Fin ps"
  unfolding finitePnl_def
proof (induction trades arbitrary: ps)
  case Nil
  then show ?case by simp
next
  case (Cons t ts)
  then obtain p ps' where "ps = p # ps'" by (cases ps) auto
  with Cons show ?case by (auto simp: pnlOr0_def)
qed

lemma jle_Fin: "jle (Fin a) (Fin b) = (a \<le> b)"
  by auto

lemma grossWin_finite:
  assumes "finitePnl trades ps"
  shows "grossWin trades = Fin (specGrossWins ps)"
  unfolding grossWin_def specGrossWins_def
  using foldl_jadd_filter_Fin [OF finitePnl_pnlOr0 [OF assms],
      where Q = "\<lambda>x. jgt x (Fin 0)" and z = 0]
  by (simp add: jgt_def)

lemma grossLoss_finite:
  assumes "finitePnl trades ps"
  shows "grossLoss trades = Fin (specGrossLosses ps)"
  unfolding grossLoss_def specGrossLosses_def
  using foldl_jadd_filter_Fin [OF finitePnl_pnlOr0 [OF assms],
      where Q = "\<lambda>x. jle x (Fin 0)" and z = 0]
  by (simp del: jle.simps add: jle_Fin)

lemma specGrossWins_nonneg: "0 \<le> specGrossWins ps"
  unfolding specGrossWins_def by (induction ps) auto

text \<open>
  C8. For every finished trade list the profit factor is gross wins divided by gross
  losses when gross losses are positive, the sentinel 999 when gross losses are zero and
  gross wins are positive, and 0 when both are zero. The first conjunct is the rule on the
  sums as the program computes them; the second reads it on trades with finite profits,
  where gross wins and gross losses are the sums of the specification, both are
  non-negative, and the three cases cover every list.
\<close>

theorem calcMetrics_profitFactor:
  "bm_profitFactor (calcMetrics trades config) =
     (if jgt (grossLoss trades) (Fin 0) then jdiv (grossWin trades) (grossLoss trades)
      else if jgt (grossWin trades) (Fin 0) then Fin 999 else Fin 0)
   \<and> (finitePnl trades ps \<longrightarrow>
        grossWin trades = Fin (specGrossWins ps) \<and> grossLoss trades = Fin (specGrossLosses ps)
        \<and> 0 \<le> specGrossWins ps \<and> 0 \<le> specGrossLosses ps
        \<and> (0 < specGrossLosses ps \<longrightarrow>
             bm_profitFactor (calcMetrics trades config)
               = Fin (specGrossWins ps / specGrossLosses ps))
        \<and> (specGrossLosses ps = 0 \<and> 0 < specGrossWins ps \<longrightarrow>
             bm_profitFactor (calcMetrics trades config) = Fin 999)
        \<and> (specGrossLosses ps = 0 \<and> specGrossWins ps = 0 \<longrightarrow>
             bm_profitFactor (calcMetrics trades config) = Fin 0))"
proof -
  have pf: "bm_profitFactor (calcMetrics trades config) =
     (if jgt (grossLoss trades) (Fin 0) then jdiv (grossWin trades) (grossLoss trades)
      else if jgt (grossWin trades) (Fin 0) then Fin 999 else Fin 0)"
    by (simp add: calcMetrics_def Let_def)
  have fin: "grossWin trades = Fin (specGrossWins ps) \<and> grossLoss trades = Fin (specGrossLosses ps)
        \<and> 0 \<le> specGrossWins ps \<and> 0 \<le> specGrossLosses ps
        \<and> (0 < specGrossLosses ps \<longrightarrow>
             bm_profitFactor (calcMetrics trades config)
               = Fin (specGrossWins ps / specGrossLosses ps))
        \<and> (specGrossLosses ps = 0 \<and> 0 < specGrossWins ps \<longrightarrow>
             bm_profitFactor (calcMetrics trades config) = Fin 999)
        \<and> (specGrossLosses ps = 0 \<and> specGrossWins ps = 0 \<longrightarrow>
             bm_profitFactor (calcMetrics trades config) = Fin 0)"
    if f: "finitePnl trades ps"
  proof -
    note gw = grossWin_finite [OF f] and gl = grossLoss_finite [OF f]
    have "0 \<le> specGrossLosses ps" by (simp add: specGrossLosses_def)
    with gw gl specGrossWins_nonneg [of ps] show ?thesis
      unfolding pf by (simp add: jgt_def)
  qed
  from pf fin show ?thesis by blast
qed

text \<open>
  Profits 60, -25, 40, -25 give 100 / 50 = 2; the scenarios of the specification: gross
  wins 100 without losses give 999, no trades or only zero profits give 0.
\<close>

theorem calcMetrics_profitFactor_witness:
  "bm_profitFactor (calcMetrics (map tradeWithPnl [60, -25, 40, -25]) someConfig) = Fin 2
   \<and> bm_profitFactor (calcMetrics (map tradeWithPnl [100]) someConfig) = Fin 999
   \<and> bm_profitFactor (calcMetrics (map tradeWithPnl []) someConfig) = Fin 0
   \<and> bm_profitFactor (calcMetrics (map tradeWithPnl [0, 0]) someConfig) = Fin 0"
proof -
  have f: "finitePnl (map tradeWithPnl ps) ps" for ps
    by (simp add: finitePnl_def tradeWithPnl_def)
  note pf = calcMetrics_profitFactor [THEN conjunct2, rule_format, OF f]
  have a: "bm_profitFactor (calcMetrics (map tradeWithPnl [60, -25, 40, -25]) someConfig) = Fin 2"
    using pf [of "[60, -25, 40, -25]" someConfig]
    by (simp add: specGrossWins_def specGrossLosses_def)
  have b: "bm_profitFactor (calcMetrics (map tradeWithPnl [100]) someConfig) = Fin 999"
    using pf [of "[100]" someConfig]
    by (simp add: specGrossWins_def specGrossLosses_def)
  have c: "bm_profitFactor (calcMetrics (map tradeWithPnl []) someConfig) = Fin 0"
    using pf [of "[]" someConfig]
    by (simp add: specGrossWins_def specGrossLosses_def)
  have d: "bm_profitFactor (calcMetrics (map tradeWithPnl [0, 0]) someConfig) = Fin 0"
    using pf [of "[0, 0]" someConfig]
    by (simp add: specGrossWins_def specGrossLosses_def)
  from a b c d show ?thesis by blast
qed

subsection \<open>The walk-forward loop\<close>

declare backtestLoop.simps [simp del]

lemma backtestLoop_invariant:
  assumes "\<And>j b t pnl. i0 \<le> j \<Longrightarrow> j + 5 < length candles \<Longrightarrow>
             backtestStep clock candles config j b = Some (t, pnl) \<Longrightarrow> P t"
    and "i0 \<le> i"
    and "\<forall>t \<in> set trades. P t"
  shows "\<forall>t \<in> set (backtestLoop clock candles config i balance trades). P t"
  using assms
proof (induction clock candles config i balance trades rule: backtestLoop.induct)
  case (1 clock candles config i balance trades)
  show ?case
  proof (cases "i + 5 < length candles")
    case False
    then show ?thesis using "1.prems"(3) by (subst backtestLoop.simps) simp
  next
    case True
    show ?thesis
    proof (cases "backtestStep clock candles config i balance")
      case None
      have "\<forall>t \<in> set (backtestLoop clock candles config (i + 1) balance trades). P t"
        using "1.IH"(1) [OF True None "1.prems"(1)] "1.prems"(2,3) by simp
      then show ?thesis using True None by (subst backtestLoop.simps) simp
    next
      case (Some r)
      obtain t pnl where r: "r = (t, pnl)" by (cases r)
      have pt: "P t" using "1.prems"(1) [OF "1.prems"(2) True] Some r by simp
      have "\<forall>t \<in> set (backtestLoop clock candles config (i + 20 + 1) (jadd balance pnl)
                        (trades @ [t])). P t"
        using "1.IH"(2) [OF True Some [unfolded r] refl "1.prems"(1)] "1.prems"(2,3) pt by simp
      then show ?thesis using True Some r by (subst backtestLoop.simps) simp
    qed
  qed
qed

lemma backtestStep_trade:
  assumes "backtestStep clock candles config i balance = Some (t, pnl)"
  shows "\<exists>kz an setup pl.
           getActiveKillzone (clock (c_time (last (take (i + 1) candles)))) = Some kz
         \<and> i mod 15 = 0
         \<and> an = analyse (take (i + 1) candles) (cfg_timeframe config)
         \<and> first (an_setups an) = Some setup
         \<and> pl = planFor (last (take (i + 1) candles)) setup
         \<and> \<not> jlt (pl_rr pl) (Fin 2)
         \<and> t_council t = runCouncil (backtestAgents (take (i + 1) candles) an kz balance setup pl)
         \<and> (co_grade (t_council t) = Grade_Aplus \<or> co_grade (t_council t) = Grade_A)
         \<and> t_direction t = pl_direction pl \<and> t_entry t = pl_entry pl \<and> t_stopLoss t = pl_sl pl
         \<and> t_tp1 t = pl_tp1 pl \<and> t_tp2 t = pl_tp2 pl
         \<and> t_status t = fst (resolveOutcome candles i pl)
         \<and> t_closePrice t = Some (snd (resolveOutcome candles i pl))
         \<and> t_timestamp t = c_time (last (take (i + 1) candles))"
  using assms unfolding backtestStep_def Let_def
  by (auto split: option.splits list.splits if_splits)

lemma last_take_nth: "i < length xs \<Longrightarrow> last (take (Suc i) xs) = xs ! i"
  by (simp add: take_Suc_conv_app_nth)

lemma runBacktest_trades:
  assumes run: "runBacktest clock candles config = Inr r"
    and t: "t \<in> set (br_trades r)"
  shows "\<exists>i balance pnl. 50 \<le> i \<and> i + 5 < length candles
           \<and> backtestStep clock candles config i balance = Some (t, pnl)"
proof -
  let ?P = "\<lambda>t. \<exists>i balance pnl. 50 \<le> i \<and> i + 5 < length candles
                 \<and> backtestStep clock candles config i balance = Some (t, pnl)"
  from run have tr: "br_trades r =
      backtestLoop clock candles config 50 (Fin (cfg_initialBalance config)) []"
    by (auto simp: runBacktest_def Let_def split: if_splits)
  have "\<forall>t \<in> set (backtestLoop clock candles config 50 (Fin (cfg_initialBalance config)) []). ?P t"
    by (rule backtestLoop_invariant [where ?i0.0 = 50]) auto
  with t tr show ?thesis by simp
qed

text \<open>The example run: one trade, taken at index 60 and closed at the stop.\<close>

lemma example_loop:
  "map (\<lambda>t. (t_timestamp t, t_direction t, t_entry t, t_stopLoss t, t_tp1 t, t_tp2 t,
             t_status t, t_closePrice t, t_grade t))
     (backtestLoop exampleClock exampleCandles exampleConfig 50 (Fin 1000) [])
   = [(60, LONG, 503 / 5, 499 / 5, 102627 / 1000, 52327 / 500, SL_HIT, Some (499 / 5), Grade_A)]"
  by code_simp

lemma exampleCandles_length: "length exampleCandles = 111"
  by (simp add: exampleCandles_def mkCandles_def examplePattern_def)

lemma example_run:
  "\<exists>r t. runBacktest exampleClock exampleCandles exampleConfig = Inr r \<and> br_trades r = [t]
     \<and> t_timestamp t = 60 \<and> t_direction t = LONG \<and> t_entry t = 503 / 5
     \<and> t_stopLoss t = 499 / 5 \<and> t_tp1 t = 102627 / 1000 \<and> t_tp2 t = 52327 / 500
     \<and> t_status t = SL_HIT \<and> t_closePrice t = Some (499 / 5) \<and> t_grade t = Grade_A"
proof -
  let ?ts = "backtestLoop exampleClock exampleCandles exampleConfig 50 (Fin 1000) []"
  have run: "runBacktest exampleClock exampleCandles exampleConfig =
      Inr \<lparr> br_config = exampleConfig, br_trades = ?ts,
            br_metrics = calcMetrics ?ts exampleConfig \<rparr>"
    by (simp add: runBacktest_def exampleCandles_length Let_def exampleConfig_def)
  from example_loop obtain t where "?ts = [t]"
    "(t_timestamp t, t_direction t, t_entry t, t_stopLoss t, t_tp1 t, t_tp2 t,
      t_status t, t_closePrice t, t_grade t)
     = (60, LONG, 503 / 5, 499 / 5, 102627 / 1000, 52327 / 500, SL_HIT, Some (499 / 5), Grade_A)"
    by (auto simp: map_eq_Cons_conv)
  with run show ?thesis by auto
qed

subsection \<open>Insufficient data\<close>

lemma findIndex_less: "findIndex P xs = Some k \<Longrightarrow> k < length xs"
  by (induction xs arbitrary: k) (auto split: if_splits)

lemma jsSort_Nil: "jsSort cmp [] = []"
  by (simp add: jsSort_def)

lemma blocksFor_short:
  assumes "length candles \<le> 3"
  shows "blocksFor candles avgVol timeframe sp = []"
proof (cases "findIndex (\<lambda>c. c_time c \<ge> sp_time sp) candles")
  case None
  then show ?thesis by (simp add: blocksFor_def)
next
  case (Some k)
  with findIndex_less [OF Some] assms show ?thesis by (simp add: blocksFor_def)
qed

lemma setupsFor_short:
  assumes "length candles \<le> 3"
  shows "setupsFor candles m level = []"
proof (cases "findIndex (\<lambda>c. Some (c_time c) = ll_sweepTime level) candles")
  case None
  then show ?thesis by (simp add: setupsFor_def)
next
  case (Some k)
  with findIndex_less [OF Some] assms show ?thesis by (auto simp: setupsFor_def)
qed

lemma sliceLast_Nil_iff: "sliceLast n xs = [] \<longleftrightarrow> xs = [] \<or> n = 0"
  by (cases xs) (auto simp: sliceLast_def)

lemma calcPDArray_None_iff:
  "calcPDArray swings p = None \<longleftrightarrow>
     filter (\<lambda>s. sw_type s = HIGH) swings = [] \<or> filter (\<lambda>s. sw_type s = LOW) swings = []"
proof -
  define hs where "hs = map sw_price (sliceLast 3 (filter (\<lambda>s. sw_type s = HIGH) swings))"
  define ls where "ls = map sw_price (sliceLast 3 (filter (\<lambda>s. sw_type s = LOW) swings))"
  have h: "hs = [] \<longleftrightarrow> filter (\<lambda>s. sw_type s = HIGH) swings = []"
    by (simp add: hs_def sliceLast_Nil_iff)
  have l: "ls = [] \<longleftrightarrow> filter (\<lambda>s. sw_type s = LOW) swings = []"
    by (simp add: ls_def sliceLast_Nil_iff)
  have "calcPDArray swings p = None \<longleftrightarrow> hs = [] \<or> ls = []"
    unfolding calcPDArray_def hs_def [symmetric] ls_def [symmetric]
    by (cases hs; cases ls) (simp_all add: Let_def)
  with h l show ?thesis by simp
qed

text \<open>
  C7. On insufficient input only the backtest simulator fails: it returns the error
  exactly when it is given fewer than 100 candles. The detectors are total functions without
  an error result; on too little data they return an empty list or none: the structure
  analyzer with fewer than four swings, the premium/discount calculator exactly when the
  HIGH or the LOW swings are empty, the swing and liquidity detectors below \<open>L+R+1\<close>
  candles, the gap detector below three candles, the order-block and setup detectors up to
  three candles.
\<close>

theorem insufficient_data:
  "(length candles < 100 \<longrightarrow> runBacktest clock candles config = Inl NotEnoughCandles)
   \<and> (100 \<le> length candles \<longrightarrow> (\<exists>r. runBacktest clock candles config = Inr r))
   \<and> (length swings < 4 \<longrightarrow> detectMarketStructure candles swings = [])
   \<and> (calcPDArray swings price = None \<longleftrightarrow>
        filter (\<lambda>s. sw_type s = HIGH) swings = [] \<or> filter (\<lambda>s. sw_type s = LOW) swings = [])
   \<and> (length candles < L + R + 1 \<longrightarrow> detectSwings candles L R = [])
   \<and> (length candles < L + R + 1 \<longrightarrow> detectLiquiditySweeps candles tf L R = [])
   \<and> (length candles < 3 \<longrightarrow> detectFVGs candles tf minSize = [])
   \<and> (length candles \<le> 3 \<longrightarrow> detectOrderBlocks candles sps tf = [])
   \<and> (length candles \<le> 3 \<longrightarrow> detectSweepFVGSetups candles levels minSize = [])"
proof (intro conjI impI)
  show "runBacktest clock candles config = Inl NotEnoughCandles" if "length candles < 100"
    using that by (simp add: runBacktest_def)
  show "\<exists>r. runBacktest clock candles config = Inr r" if "100 \<le> length candles"
    using that by (simp add: runBacktest_def Let_def)
  show "detectMarketStructure candles swings = []" if "length swings < 4"
    using that by (simp add: detectMarketStructure_def)
  show "calcPDArray swings price = None \<longleftrightarrow>
        filter (\<lambda>s. sw_type s = HIGH) swings = [] \<or> filter (\<lambda>s. sw_type s = LOW) swings = []"
    by (rule calcPDArray_None_iff)
  show sw: "detectSwings candles L R = []" if "length candles < L + R + 1"
    using that by (simp add: detectSwings_def jsSort_Nil)
  show "detectLiquiditySweeps candles tf L R = []" if "length candles < L + R + 1"
    using sw [OF that] by (simp add: detectLiquiditySweeps_def)
  show "detectFVGs candles tf minSize = []" if "length candles < 3"
    using that by (simp add: detectFVGs_def)
  show "detectOrderBlocks candles sps tf = []" if "length candles \<le> 3"
  proof -
    have c: "concat (map (blocksFor candles a tf) ss) = []" for a ss
      using blocksFor_short [OF that] by (induction ss) simp_all
    show ?thesis by (simp only: detectOrderBlocks_def c list.map filter.simps)
  qed
  show "detectSweepFVGSetups candles levels minSize = []" if "length candles \<le> 3"
  proof -
    have c: "concat (map (setupsFor candles minSize) ls) = []" for ls
      using setupsFor_short [OF that] by (induction ls) simp_all
    show ?thesis by (simp only: detectSweepFVGSetups_def c jsSort_Nil)
  qed
qed

text \<open>
  The simulator refuses 99 candles and runs on 111; the swing scenario has a single swing,
  so the structure analyzer returns no event and the premium/discount calculator none; two
  or three candles are too few for the other detectors.
\<close>

theorem insufficient_data_witness:
  "runBacktest exampleClock (take 99 exampleCandles) exampleConfig = Inl NotEnoughCandles
   \<and> (\<exists>r. runBacktest exampleClock exampleCandles exampleConfig = Inr r)
   \<and> detectMarketStructure swingScenario (detectSwings swingScenario 1 1) = []
   \<and> calcPDArray (detectSwings swingScenario 1 1) 10 = None
   \<and> detectSwings (take 2 swingScenario) 1 1 = []
   \<and> detectLiquiditySweeps (take 2 swingScenario) TF_15m 1 1 = []
   \<and> detectFVGs (take 2 swingScenario) TF_15m 0.05 = []
   \<and> detectOrderBlocks (take 3 obCandles) [obBreak] TF_15m = []
   \<and> detectSweepFVGSetups (take 3 swingScenario)
        (detectLiquiditySweeps swingScenario TF_15m 1 1) 0.03 = []"
proof -
  have sw: "detectSwings swingScenario 1 1 =
      [\<lparr> sw_index = 2, sw_time = 0, sw_price = 15, sw_type = HIGH \<rparr>]"
    by code_simp
  have l5: "length swingScenario = 5" by (simp add: swingScenario_def)
  have l111: "length exampleCandles = 111" by (rule exampleCandles_length)
  have lob: "length obCandles = 5" by (simp add: obCandles_def mkCandles_def)
  note t = insufficient_data
  have a: "runBacktest exampleClock (take 99 exampleCandles) exampleConfig = Inl NotEnoughCandles"
    using t [where candles = "take 99 exampleCandles"] l111 by simp
  have b: "\<exists>r. runBacktest exampleClock exampleCandles exampleConfig = Inr r"
    using t [where candles = exampleCandles] l111 by simp
  have c: "detectMarketStructure swingScenario (detectSwings swingScenario 1 1) = []"
    using t [where swings = "detectSwings swingScenario 1 1"] sw by simp
  have d: "calcPDArray (detectSwings swingScenario 1 1) 10 = None"
    using t [where swings = "detectSwings swingScenario 1 1" and price = 10] sw by simp
  have e: "detectSwings (take 2 swingScenario) 1 1 = []"
    using t [where candles = "take 2 swingScenario" and L = 1 and R = 1] l5 by simp
  have f: "detectLiquiditySweeps (take 2 swingScenario) TF_15m 1 1 = []"
    using t [where candles = "take 2 swingScenario" and L = 1 and R = 1] l5 by simp
  have g: "detectFVGs (take 2 swingScenario) TF_15m 0.05 = []"
    using t [where candles = "take 2 swingScenario"] l5 by simp
  have h: "detectOrderBlocks (take 3 obCandles) [obBreak] TF_15m = []"
    using t [where candles = "take 3 obCandles"] lob by simp
  have i: "detectSweepFVGSetups (take 3 swingScenario)
        (detectLiquiditySweeps swingScenario TF_15m 1 1) 0.03 = []"
    using t [where candles = "take 3 swingScenario"] l5 by simp
  from a b c d e f g h i show ?thesis by blast
qed

subsection \<open>Outcome resolution\<close>

lemma scanOutcome_find:
  "scanOutcome d sl tp1 tp2 fcs =
     (case find (\<lambda>fc. outcomeAt d sl tp1 tp2 fc \<noteq> None) fcs of
        None \<Rightarrow> (SL_HIT, sl)
      | Some fc \<Rightarrow> the (outcomeAt d sl tp1 tp2 fc))"
  by (induction fcs) (auto split: option.splits)

lemma futureCandles_length:
  "length (futureCandles candles i) = min 49 (length candles - (i + 1))"
  by (auto simp: futureCandles_def)

lemma futureCandles_nth:
  "k < length (futureCandles candles i) \<Longrightarrow> futureCandles candles i ! k = candles ! (i + 1 + k)"
  by (auto simp: futureCandles_def)

text \<open>
  C6 (as amended). Every trade of a backtest was taken at an index \<open>i\<close> of the loop and
  its outcome and exit price are those of the scan of the candles \<open>i+1\<close> up to
  \<open>min(i+50, length) - 1\<close>, at most 49 of them; the scan takes the first candle on which a
  check triggers, the checks per candle being in this order: target 2, target 1, stop (for
  a LONG high \<ge> target 2, else high \<ge> target 1, else low \<le> stop; mirrored for a SHORT);
  without a trigger the outcome is the stop hit with exit at the stop price.
\<close>

theorem backtest_outcome_resolution:
  "(runBacktest clock candles config = Inr r \<and> t \<in> set (br_trades r) \<longrightarrow>
      (\<exists>i. 50 \<le> i \<and> i + 5 < length candles \<and> t_timestamp t = c_time (candles ! i)
         \<and> t_status t = fst (scanOutcome (t_direction t) (t_stopLoss t) (t_tp1 t) (t_tp2 t)
                               (futureCandles candles i))
         \<and> t_closePrice t = Some (snd (scanOutcome (t_direction t) (t_stopLoss t) (t_tp1 t)
                                         (t_tp2 t) (futureCandles candles i)))))
   \<and> length (futureCandles candles i) = min 49 (length candles - (i + 1))
   \<and> (\<forall>k < length (futureCandles candles i). futureCandles candles i ! k = candles ! (i + 1 + k))
   \<and> scanOutcome d sl tp1 tp2 fcs =
       (case find (\<lambda>fc. outcomeAt d sl tp1 tp2 fc \<noteq> None) fcs of
          None \<Rightarrow> (SL_HIT, sl)
        | Some fc \<Rightarrow> the (outcomeAt d sl tp1 tp2 fc))
   \<and> outcomeAt LONG sl tp1 tp2 fc =
       (if c_high fc \<ge> tp2 then Some (TP2_HIT, tp2)
        else if c_high fc \<ge> tp1 then Some (TP1_HIT, tp1)
        else if c_low fc \<le> sl then Some (SL_HIT, sl) else None)
   \<and> outcomeAt SHORT sl tp1 tp2 fc =
       (if c_low fc \<le> tp2 then Some (TP2_HIT, tp2)
        else if c_low fc \<le> tp1 then Some (TP1_HIT, tp1)
        else if c_high fc \<ge> sl then Some (SL_HIT, sl) else None)"
proof -
  have a: "\<exists>i. 50 \<le> i \<and> i + 5 < length candles \<and> t_timestamp t = c_time (candles ! i)
         \<and> t_status t = fst (scanOutcome (t_direction t) (t_stopLoss t) (t_tp1 t) (t_tp2 t)
                               (futureCandles candles i))
         \<and> t_closePrice t = Some (snd (scanOutcome (t_direction t) (t_stopLoss t) (t_tp1 t)
                                         (t_tp2 t) (futureCandles candles i)))"
    if "runBacktest clock candles config = Inr r" "t \<in> set (br_trades r)"
  proof -
    from runBacktest_trades [OF that] obtain i balance pnl where
      i: "50 \<le> i" "i + 5 < length candles"
      and st: "backtestStep clock candles config i balance = Some (t, pnl)" by blast
    from backtestStep_trade [OF st] obtain pl where
      "t_direction t = pl_direction pl" "t_entry t = pl_entry pl" "t_stopLoss t = pl_sl pl"
      "t_tp1 t = pl_tp1 pl" "t_tp2 t = pl_tp2 pl"
      "t_status t = fst (resolveOutcome candles i pl)"
      "t_closePrice t = Some (snd (resolveOutcome candles i pl))"
      "t_timestamp t = c_time (last (take (i + 1) candles))" by blast
    with i show ?thesis
      by (intro exI [of _ i]) (simp add: resolveOutcome_def last_take_nth)
  qed
  show ?thesis
    using a futureCandles_length [of candles i] futureCandles_nth [of _ candles i]
      scanOutcome_find [of d sl tp1 tp2 fcs]
    by (simp add: outcomeAt_def)
qed

text \<open>
  The trade of the example run: taken at index 60, it finds no trigger on the candles 61
  to 109 and closes at the stop of 99.8.
\<close>

theorem backtest_outcome_resolution_witness:
  "\<exists>r t. runBacktest exampleClock exampleCandles exampleConfig = Inr r \<and> br_trades r = [t]
     \<and> t_status t = SL_HIT \<and> t_closePrice t = Some (499 / 5)
     \<and> (\<exists>i. 50 \<le> i \<and> i + 5 < length exampleCandles
            \<and> t_timestamp t = c_time (exampleCandles ! i)
            \<and> t_status t = fst (scanOutcome (t_direction t) (t_stopLoss t) (t_tp1 t) (t_tp2 t)
                                  (futureCandles exampleCandles i))
            \<and> t_closePrice t = Some (snd (scanOutcome (t_direction t) (t_stopLoss t) (t_tp1 t)
                                            (t_tp2 t) (futureCandles exampleCandles i))))"
proof -
  from example_run obtain r t where
    rt: "runBacktest exampleClock exampleCandles exampleConfig = Inr r" "br_trades r = [t]"
      "t_status t = SL_HIT" "t_closePrice t = Some (499 / 5)" by blast
  then have "t \<in> set (br_trades r)" by simp
  with backtest_outcome_resolution [of exampleClock exampleCandles exampleConfig r t] rt(1)
  have "\<exists>i. 50 \<le> i \<and> i + 5 < length exampleCandles
            \<and> t_timestamp t = c_time (exampleCandles ! i)
            \<and> t_status t = fst (scanOutcome (t_direction t) (t_stopLoss t) (t_tp1 t) (t_tp2 t)
                                  (futureCandles exampleCandles i))
            \<and> t_closePrice t = Some (snd (scanOutcome (t_direction t) (t_stopLoss t) (t_tp1 t)
                                            (t_tp2 t) (futureCandles exampleCandles i)))"
    by blast
  with rt show ?thesis by blast
qed

text \<open>
  C6 as stated fails on the window: in the example the fiftieth candle after the entry
  reaches target 2, a scan of 50 future candles ends there, and the simulator closes the
  trade at the stop.
\<close>

theorem outcome_window_counterexample:
  "scanOutcome LONG (499 / 5) (102627 / 1000) (52327 / 500) (futureCandles exampleCandles 60)
     = (SL_HIT, 499 / 5)
   \<and> scanOutcome LONG (499 / 5) (102627 / 1000) (52327 / 500)
        (specFutureCandles exampleCandles 60) = (TP2_HIT, 52327 / 500)"
  by code_simp

subsection \<open>The risk evaluator in a backtest\<close>

lemma runRiskAgent_backtest_form:
  "runRiskAgent killzone balance 0 e s tp False =
     (if jlt balance (Fin 30)
      then \<lparr> ag_agent = RISK, ag_score = 0, ag_bullish = False, ag_weight = WEIGHTS RISK \<rparr>
      else \<lparr> ag_agent = RISK,
             ag_score = clampScore (sessionPoints killzone + rrPoints (rewardRisk tp e s) + 10),
             ag_bullish = (clampScore (sessionPoints killzone + rrPoints (rewardRisk tp e s) + 10)
                             > 50),
             ag_weight = WEIGHTS RISK \<rparr>)"
  by (auto simp: runRiskAgent_def sessionPoints_def rrPoints_def Let_def split: option.splits)

text \<open>
  C10. The fourth evaluator call of the simulator is the risk evaluator with a session
  trade count of 0 and the news flag false, and the council of every trade of a backtest
  carries the signal of such a call. For these arguments the risk evaluator blocks (score
  0) exactly when the balance is below 30; otherwise its score is the clamped sum of the
  session points, the reward:risk points and the first-trade bonus of 10, with no news
  penalty and no trade-count gate.
\<close>

theorem backtest_risk_call:
  "backtestAgents slice an kz balance setup pl ! 3 =
     runRiskAgent (Some kz) balance 0 (pl_entry pl) (pl_sl pl) (pl_tp1 pl) False
   \<and> (runBacktest clock candles config = Inr r \<and> t \<in> set (br_trades r) \<longrightarrow>
        (\<exists>kz' balance'. co_agents (t_council t) ! 3 =
           runRiskAgent (Some kz') balance' 0 (t_entry t) (t_stopLoss t) (t_tp1 t) False))
   \<and> runRiskAgent killzone balance 0 e s tp False =
       (if jlt balance (Fin 30)
        then \<lparr> ag_agent = RISK, ag_score = 0, ag_bullish = False, ag_weight = WEIGHTS RISK \<rparr>
        else \<lparr> ag_agent = RISK,
               ag_score = clampScore (sessionPoints killzone + rrPoints (rewardRisk tp e s) + 10),
               ag_bullish =
                 (clampScore (sessionPoints killzone + rrPoints (rewardRisk tp e s) + 10) > 50),
               ag_weight = WEIGHTS RISK \<rparr>)"
proof -
  have a: "backtestAgents slice an kz balance setup pl ! 3 =
     runRiskAgent (Some kz) balance 0 (pl_entry pl) (pl_sl pl) (pl_tp1 pl) False"
    by (simp add: backtestAgents_def numeral_3_eq_3)
  have b: "\<exists>kz' balance'. co_agents (t_council t) ! 3 =
           runRiskAgent (Some kz') balance' 0 (t_entry t) (t_stopLoss t) (t_tp1 t) False"
    if "runBacktest clock candles config = Inr r" "t \<in> set (br_trades r)"
  proof -
    from runBacktest_trades [OF that] obtain i balance pnl where
      st: "backtestStep clock candles config i balance = Some (t, pnl)" by blast
    from backtestStep_trade [OF st] obtain kz an su pl where
      "t_council t = runCouncil (backtestAgents (take (i + 1) candles) an kz balance su pl)"
      "t_entry t = pl_entry pl" "t_stopLoss t = pl_sl pl" "t_tp1 t = pl_tp1 pl" by blast
    then show ?thesis
      by (intro exI [of _ kz] exI [of _ balance])
        (simp add: runCouncil_def backtestAgents_def numeral_3_eq_3)
  qed
  from a b runRiskAgent_backtest_form [of killzone balance e s tp] show ?thesis by blast
qed

text \<open>
  The trade of the example run carries such a risk signal; at 19:00 (NYKZ, 185 minutes
  left) with entry 100.6, stop 99.8 and target 102.627 the risk score is 40 + 10 + 15 + 10 =
  75 for a balance of 1000, and 0 for a balance of 20.
\<close>

theorem backtest_risk_call_witness:
  "(\<exists>r t kz b. runBacktest exampleClock exampleCandles exampleConfig = Inr r \<and> br_trades r = [t]
      \<and> co_agents (t_council t) ! 3 =
          runRiskAgent (Some kz) b 0 (t_entry t) (t_stopLoss t) (t_tp1 t) False)
   \<and> ag_score (runRiskAgent (getActiveKillzone (Some (19, 0))) (Fin 1000) 0
                 (503 / 5) (499 / 5) (102627 / 1000) False) = 75
   \<and> ag_score (runRiskAgent (getActiveKillzone (Some (19, 0))) (Fin 20) 0
                 (503 / 5) (499 / 5) (102627 / 1000) False) = 0"
proof -
  from example_run obtain r t where
    rt: "runBacktest exampleClock exampleCandles exampleConfig = Inr r" "br_trades r = [t]"
    by blast
  then have "t \<in> set (br_trades r)" by simp
  with backtest_risk_call [where clock = exampleClock and candles = exampleCandles
      and config = exampleConfig and r = r and t = t] rt(1)
  have a: "\<exists>kz b. co_agents (t_council t) ! 3 =
          runRiskAgent (Some kz) b 0 (t_entry t) (t_stopLoss t) (t_tp1 t) False"
    by blast
  have kz: "getActiveKillzone (Some (19, 0)) =
      Some \<lparr> kz_name = NYKZ, kz_startH = 18, kz_startM = 15, kz_endH = 22, kz_endM = 15,
             kz_active = True, kz_minutesRemaining = Some 185 \<rparr>"
    by (simp add: getActiveKillzone_def KILLZONE_DEFS_def)
  have b: "ag_score (runRiskAgent (getActiveKillzone (Some (19, 0))) (Fin 1000) 0
                 (503 / 5) (499 / 5) (102627 / 1000) False) = 75"
    using backtest_risk_call [where killzone = "getActiveKillzone (Some (19, 0))"
        and balance = "Fin 1000" and e = "503 / 5" and s = "499 / 5" and tp = "102627 / 1000"]
    by (simp add: kz sessionPoints_def rrPoints_def rewardRisk_def clampScore_def jge_def)
  have c: "ag_score (runRiskAgent (getActiveKillzone (Some (19, 0))) (Fin 20) 0
                 (503 / 5) (499 / 5) (102627 / 1000) False) = 0"
    using backtest_risk_call [where killzone = "getActiveKillzone (Some (19, 0))"
        and balance = "Fin 20" and e = "503 / 5" and s = "499 / 5" and tp = "102627 / 1000"]
    by simp
  from a b c rt show ?thesis by blast
qed

subsection \<open>Order-block strength\<close>

text \<open>
  C2 at a failing input. The order block found for the break of 110 has strength 150 and
  the breaker block derived from it 170: the volume term is capped at 100, the move term
  at 50, and neither sum is clamped.
\<close>

theorem orderBlock_strength_exceeds_100:
  "map ob_strength (detectOrderBlocks obCandles [obBreak] TF_15m) = [Fin 150]
   \<and> map ob_strength (detectBreakerBlocks (detectOrderBlocks obCandles [obBreak] TF_15m) obCandles)
       = [Fin 170]"
  by code_simp

text \<open>
  The same on the slice the example run evaluates: its six bullish order blocks have
  strength 103.
\<close>

lemma pipeline_orderBlocks:
  "map ob_strength
     (detectOrderBlocks (take 61 exampleCandles)
        (detectMarketStructure (take 61 exampleCandles) (detectSwings (take 61 exampleCandles) 5 5))
        TF_1w)
   = [Fin 55, Fin 103, Fin 103, Fin 103, Fin 103, Fin 103, Fin 103]"
  by code_simp

text \<open>
  What holds for every candle sequence and event list: a returned order block has a finite
  strength above 20 and at most 150.
\<close>

lemma jmin_Fin_cases:
  "jmin (Fin c) x = NaN \<or> jmin (Fin c) x = NInf \<or> (\<exists>y. jmin (Fin c) x = Fin y \<and> y \<le> c)"
  by (cases x) auto

lemma strength_bound:
  assumes "jgt (jround (jadd (jmin (Fin 100) a) (jmin (Fin 50) b))) (Fin 20)"
  shows "\<exists>x. jround (jadd (jmin (Fin 100) a) (jmin (Fin 50) b)) = Fin x \<and> 20 < x \<and> x \<le> 150"
proof -
  from jmin_Fin_cases [of 100 a] jmin_Fin_cases [of 50 b] assms
  obtain y z where y: "jmin (Fin 100) a = Fin y" "y \<le> 100" and z: "jmin (Fin 50) b = Fin z" "z \<le> 50"
    by (auto simp: jgt_def)
  then have "y + z \<le> 150" by simp
  then have "\<lfloor>y + z + 1 / 2\<rfloor> \<le> 150" by linarith
  with assms y z show ?thesis by (auto simp: jgt_def)
qed

lemma detectOrderBlocks_strength:
  assumes "b \<in> set (detectOrderBlocks candles sps tf)"
  shows "\<exists>x. ob_strength b = Fin x \<and> 20 < x \<and> x \<le> 150"
proof -
  from assms obtain b0 sp where
    b: "b = checkMitigation candles b0" and gt: "jgt (ob_strength b) (Fin 20)"
    and b0: "b0 \<in> set (blocksFor candles (avgVolume candles) tf sp)"
    by (auto simp: detectOrderBlocks_def)
  have s: "ob_strength b = ob_strength b0"
    unfolding b by (simp add: checkMitigation_def split: option.splits)
  from b0 obtain c where
    "b0 = bullishBlock (avgVolume candles) tf sp c \<or> b0 = bearishBlock (avgVolume candles) tf sp c"
    by (auto simp: blocksFor_def split: option.splits if_splits)
  then obtain p q where "ob_strength b0 = jround (jadd (jmin (Fin 100) p) (jmin (Fin 50) q))"
    by (auto simp: bullishBlock_def bearishBlock_def Let_def)
  with gt s strength_bound [of p q] show ?thesis by simp
qed

text \<open>The scores of the five evaluators, by contrast, are clamped to [0,100].\<close>

lemma clampScore_range: "0 \<le> clampScore s \<and> clampScore s \<le> 100"
  by (simp add: clampScore_def)

lemma agent_scores_clamped:
  "0 \<le> ag_score (runStructureAgent candles sps d)
     \<and> ag_score (runStructureAgent candles sps d) \<le> 100"
  "0 \<le> ag_score (runLiquidityAgent levels p d)
     \<and> ag_score (runLiquidityAgent levels p d) \<le> 100"
  "0 \<le> ag_score (runArrayAgent obs fvgs pd p d)
     \<and> ag_score (runArrayAgent obs fvgs pd p d) \<le> 100"
  "0 \<le> ag_score (runRiskAgent kz bal n e s tp news)
     \<and> ag_score (runRiskAgent kz bal n e s tp news) \<le> 100"
  "0 \<le> ag_score (runExecutionAgent candles e s tp tp2 d m ob)
     \<and> ag_score (runExecutionAgent candles e s tp tp2 d m ob) \<le> 100"
  by (simp_all add: runStructureAgent_def runLiquidityAgent_def runArrayAgent_def
      runRiskAgent_def runExecutionAgent_def Let_def clampScore_range)

text \<open>
  Every agent signs its signal with its own name and weight, so the council of the
  backtest is a list in council order with the fixed weights and scores in [0,100]: the
  lists for which the consensus, the grade and the direction are characterised above.
\<close>

lemma agent_names_weights:
  "ag_agent (runStructureAgent candles sps d) = STRUCTURE
     \<and> ag_weight (runStructureAgent candles sps d) = WEIGHTS STRUCTURE"
  "ag_agent (runLiquidityAgent levels p d) = LIQUIDITY
     \<and> ag_weight (runLiquidityAgent levels p d) = WEIGHTS LIQUIDITY"
  "ag_agent (runArrayAgent obs fvgs pd p d) = ARRAY
     \<and> ag_weight (runArrayAgent obs fvgs pd p d) = WEIGHTS ARRAY"
  "ag_agent (runRiskAgent kz bal n e s tp news) = RISK
     \<and> ag_weight (runRiskAgent kz bal n e s tp news) = WEIGHTS RISK"
  "ag_agent (runExecutionAgent candles e s tp tp2 d m ob) = EXECUTION
     \<and> ag_weight (runExecutionAgent candles e s tp tp2 d m ob) = WEIGHTS EXECUTION"
  by (simp_all add: runStructureAgent_def runLiquidityAgent_def runArrayAgent_def
      runRiskAgent_def runExecutionAgent_def Let_def)

lemma backtestAgents_council:
  "fixedWeights (backtestAgents slice an kz balance su pl)"
  "\<forall>a \<in> set (backtestAgents slice an kz balance su pl). 0 \<le> ag_score a \<and> ag_score a \<le> 100"
  by (simp_all add: fixedWeights_def councilOrder_def backtestAgents_def agent_names_weights
      agent_scores_clamped)

subsection \<open>Fill tracking\<close>

text \<open>The scan returns the last state of its trace.\<close>

lemma fillScan_last_fillTrace:
  "fillScan g cs = (if fillTrace g cs = [] then g else last (fillTrace g cs))"
proof (induction cs arbitrary: g)
  case Nil
  then show ?case by simp
next
  case (Cons c cs)
  obtain g1 brk where st: "fillStep g c = (g1, brk)" by (cases "fillStep g c")
  show ?case
  proof (cases brk)
    case True
    with st show ?thesis by simp
  next
    case False
    with st Cons.IH [of g1] show ?thesis by simp
  qed
qed

text \<open>
  C3 at a failing input. The gap between 100 and 102.5 is entered to 101 by candle 3 and
  to 102 by candle 4: the recorded fill percent goes 0, 60, 20 and ends at 20.
\<close>

theorem fillPercent_decreases:
  "map (\<lambda>g. (fvg_top g, fvg_bottom g, fvg_filled g, fvg_fillPercent g))
     (detectFVGs gapCandles TF_15m 0.05) = [(102.5, 100, False, Fin 20)]
   \<and> map (\<lambda>g. map fvg_fillPercent (fillTrace g (scanFrom gapCandles (fvg_time g))))
       (concat (map (gapsAt gapCandles TF_15m 0.05) [1 ..< length gapCandles - 1]))
     = [[Fin 0, Fin 60, Fin 20]]"
  by code_simp

text \<open>
  What holds of the claim: a gap that is not filled at the start of the scan is filled only
  by the step that ends the scan, and then its fill percent is 100.
\<close>

lemma fillScan_filled_pinned:
  "\<not> fvg_filled g \<Longrightarrow> fvg_filled (fillScan g cs) \<Longrightarrow> fvg_fillPercent (fillScan g cs) = Fin 100"
proof (induction cs arbitrary: g)
  case Nil
  then show ?case by simp
next
  case (Cons c cs)
  obtain g1 brk where st: "fillStep g c = (g1, brk)" by (cases "fillStep g c")
  show ?case
  proof (cases brk)
    case True
    with st show ?thesis by (auto simp: fillStep_def Let_def split: if_splits)
  next
    case False
    with st Cons.prems(1) have "\<not> fvg_filled g1"
      by (auto simp: fillStep_def Let_def split: if_splits)
    with Cons.IH [of g1] Cons.prems st False show ?thesis by simp
  qed
qed

lemma fillTrace_filled_last:
  "\<not> fvg_filled g \<Longrightarrow> k < length (fillTrace g cs) \<Longrightarrow> fvg_filled (fillTrace g cs ! k)
     \<Longrightarrow> Suc k = length (fillTrace g cs) \<and> fvg_fillPercent (fillTrace g cs ! k) = Fin 100"
proof (induction cs arbitrary: g k)
  case Nil
  then show ?case by simp
next
  case (Cons c cs)
  obtain g1 brk where st: "fillStep g c = (g1, brk)" by (cases "fillStep g c")
  show ?case
  proof (cases brk)
    case True
    with st Cons.prems show ?thesis by (auto simp: fillStep_def Let_def split: if_splits)
  next
    case False
    with st Cons.prems(1) have nf: "\<not> fvg_filled g1"
      by (auto simp: fillStep_def Let_def split: if_splits)
    show ?thesis
    proof (cases k)
      case 0
      with Cons.prems st False nf show ?thesis by simp
    next
      case (Suc j)
      from Cons.prems st False Suc have j: "j < length (fillTrace g1 cs)"
        and f: "fvg_filled (fillTrace g1 cs ! j)" by simp_all
      have tr: "fillTrace g (c # cs) = g1 # fillTrace g1 cs" using st False by simp
      from Cons.IH [OF nf j f] have "length (fillTrace g1 cs) = Suc j"
        and "fvg_fillPercent (fillTrace g1 cs ! j) = Fin 100" by simp_all
      then show ?thesis unfolding tr Suc by simp
    qed
  qed
qed

subsection \<open>Zero denominators\<close>

text \<open>
  C9 at failing inputs. For an empty list of signals the weight sum is zero and the
  consensus score is NaN; with the entry at the stop the reward:risk ratio of the risk
  evaluator is infinite (NaN when the target is at the entry as well), and the evaluator
  awards it the points of a ratio of at least 3.
\<close>

theorem zero_denominator_not_guarded:
  "rawConsensus [] = NaN
   \<and> co_consensusScore (runCouncil []) = NaN
   \<and> rewardRisk 102 100 100 = PInf
   \<and> rewardRisk 100 100 100 = NaN
   \<and> ag_score (runRiskAgent None (Fin 1000) 0 100 100 102 False) = 5"
  by (simp add: rawConsensus_def weightedSum_def totalWeight_def ddiv_def runCouncil_def
      rewardRisk_def runRiskAgent_def jge_def clampScore_def)

text \<open>
  The positioning score is safe: its two comparisons return before the division whenever
  the band between discount and premium is empty, so the score is a finite number in
  [0,100] for every band and price.
\<close>

lemma pdScore_finite:
  "\<exists>x. pdScore pd price = Fin x \<and> 0 \<le> x \<and> x \<le> 100"
proof (cases "price \<ge> pd_premium pd \<or> price \<le> pd_discount pd")
  case True
  then show ?thesis by (auto simp: pdScore_def)
next
  case False
  define q where "q = (pd_premium pd - price) / (pd_premium pd - pd_discount pd)"
  from False have lt: "pd_discount pd < price" "price < pd_premium pd" by auto
  then have pos: "0 < pd_premium pd - pd_discount pd" by simp
  have "q \<le> 1" unfolding q_def using pos lt by (simp add: divide_le_eq)
  moreover have "0 \<le> q" unfolding q_def using pos lt by simp
  moreover have "pdScore pd price = Fin (q * 100)"
    unfolding q_def pdScore_def using False pos by simp
  ultimately show ?thesis by simp
qed

end
